theory Spec2Isabelle
  imports Complex_Main "HOL-Library.List_Lexorder" "HOL-Library.Char_ord"
begin

section \<open>JavaScript values used by the pages\<close>

text \<open>
  A JavaScript number. A finite double is the rational it denotes. Comparisons are exact,
  and a difference is only ever used for its sign, which is the sign of the exact
  difference; sums and quotients of doubles are rounded, and are taken from the host below.
\<close>

datatype jsnum = NaN | NInf | Num rat | PInf

text \<open>The relational operator \<open><\<close> on numbers: every comparison with NaN is false.\<close>

fun num_lt :: "jsnum \<Rightarrow> jsnum \<Rightarrow> bool" where
  "num_lt NaN _ = False"
| "num_lt _ NaN = False"
| "num_lt _ NInf = False"
| "num_lt NInf _ = True"
| "num_lt PInf _ = False"
| "num_lt (Num _) PInf = True"
| "num_lt (Num a) (Num b) = (a < b)"

text \<open>The operator \<open>-\<close> on numbers.\<close>

fun num_sub :: "jsnum \<Rightarrow> jsnum \<Rightarrow> jsnum" where
  "num_sub NaN _ = NaN"
| "num_sub _ NaN = NaN"
| "num_sub (Num a) (Num b) = Num (a - b)"
| "num_sub PInf PInf = NaN"
| "num_sub NInf NInf = NaN"
| "num_sub PInf _ = PInf"
| "num_sub NInf _ = NInf"
| "num_sub (Num _) PInf = NInf"
| "num_sub (Num _) NInf = PInf"

text \<open>Truthiness of a number, as \<open>&&\<close> and \<open>||\<close> test it: 0 and NaN are falsy.\<close>

fun num_truthy :: "jsnum \<Rightarrow> bool" where
  "num_truthy NaN = False"
| "num_truthy (Num a) = (a \<noteq> 0)"
| "num_truthy _ = True"

text \<open>A field value as read with \<open>a[key]\<close> from a record of a JSON feed.\<close>

datatype jsval = JUndefined | JNull | JBool bool | JNum jsnum | JStr string

text \<open>
  A \<open>Date\<close> object is its time value: milliseconds since the epoch, or \<open>None\<close> for an
  invalid date, whose \<open>getTime()\<close> is NaN.
\<close>

type_synonym jsdate = "int option"

fun getTime :: "jsdate \<Rightarrow> jsnum" where
  "getTime None = NaN"
| "getTime (Some t) = Num (rat_of_int t)"

text \<open>\<open>d1 >= d2\<close> and \<open>d1 <= d2\<close> on dates compare the time values; false if either is NaN.\<close>

fun date_ge :: "jsdate \<Rightarrow> jsdate \<Rightarrow> bool" where
  "date_ge (Some a) (Some b) = (b \<le> a)"
| "date_ge _ _ = False"

fun date_le :: "jsdate \<Rightarrow> jsdate \<Rightarrow> bool" where
  "date_le (Some a) (Some b) = (a \<le> b)"
| "date_le _ _ = False"

text \<open>The exceptions that leave the modelled code.\<close>

datatype error = RangeError | TypeError | FetchFailed

text \<open>
  What the pages take from the JavaScript host and from the date-fns library. The results
  depend on the engine, the time zone, the locale and the clock, or are doubles that the
  model does not round, so they are parameters:
  \<^item> \<open>js_Number s\<close> is \<open>Number(s)\<close> on a string;
  \<^item> \<open>add_double a b\<close> and \<open>div_double a b\<close> are \<open>a + b\<close> and \<open>a / b\<close> on doubles with
    a finite result;
  \<^item> \<open>Date_parse s\<close> is the time value of \<open>new Date(s)\<close> for a string;
  \<^item> \<open>utc_of_local\<close> and \<open>local_of_utc\<close> convert a time value between local time and UTC;
  \<^item> \<open>Date_now\<close> is the time value of \<open>new Date()\<close>;
  \<^item> \<open>localeCompare a b\<close> is \<open>a.localeCompare(b)\<close>;
  \<^item> \<open>month_short m\<close> is what \<open>toLocaleString('default', {month: 'short'})\<close> prints for
    a date in month \<open>m\<close> (0 to 11);
  \<^item> \<open>toLowerCase\<close> is \<open>String.prototype.toLowerCase\<close>;
  \<^item> \<open>differenceInDays\<close> is the function of that name of date-fns;
  \<^item> \<open>format_date s\<close> is what \<open>format(parseISO(s), 'MMM d, yyyy')\<close> of date-fns returns for
    a string, or \<open>None\<close> when it throws.
\<close>

record host =
  js_Number :: "string \<Rightarrow> jsnum"
  Date_parse :: "string \<Rightarrow> jsdate"
  utc_of_local :: "int \<Rightarrow> int"
  local_of_utc :: "int \<Rightarrow> int"
  Date_now :: int
  localeCompare :: "string \<Rightarrow> string \<Rightarrow> int"
  month_short :: "int \<Rightarrow> string"
  toLowerCase :: "string \<Rightarrow> string"
  differenceInDays :: "jsdate \<Rightarrow> jsdate \<Rightarrow> jsnum"
  add_double :: "rat \<Rightarrow> rat \<Rightarrow> rat"
  div_double :: "rat \<Rightarrow> rat \<Rightarrow> rat"
  format_date :: "string \<Rightarrow> string option"

text \<open>\<open>ToNumber\<close> of a field value, as the relational operators apply it.\<close>

fun ToNumber :: "host \<Rightarrow> jsval \<Rightarrow> jsnum" where
  "ToNumber h JUndefined = NaN"
| "ToNumber h JNull = Num 0"
| "ToNumber h (JBool b) = Num (if b then 1 else 0)"
| "ToNumber h (JNum n) = n"
| "ToNumber h (JStr s) = js_Number h s"

text \<open>
  \<open>a < b\<close> on field values: two strings are compared by code units, anything else as
  numbers.
\<close>

fun js_lt :: "host \<Rightarrow> jsval \<Rightarrow> jsval \<Rightarrow> bool" where
  "js_lt h (JStr a) (JStr b) = (a < b)"
| "js_lt h a b = num_lt (ToNumber h a) (ToNumber h b)"

section \<open>Strings\<close>

text \<open>A string is the list of its code units; a \<open>char\<close> is a code unit below 256.\<close>

text \<open>\<open>s.split(c)\<close> for a separator of one character.\<close>

fun split_on :: "char \<Rightarrow> string \<Rightarrow> string list" where
  "split_on c [] = [[]]"
| "split_on c (x # xs) =
     (if x = c then [] # split_on c xs
      else (case split_on c xs of [] \<Rightarrow> [[x]] | w # ws \<Rightarrow> (x # w) # ws))"

text \<open>\<open>s.includes(q)\<close>.\<close>

fun str_includes :: "string \<Rightarrow> string \<Rightarrow> bool" where
  "str_includes [] q = (q = [])"
| "str_includes (x # xs) q = (take (length q) (x # xs) = q \<or> str_includes xs q)"

text \<open>
  \<open>s.trim()\<close>. The white space and line terminators of ECMAScript below 256 are the
  characters 9 to 13, the space and the no-break space 160.
\<close>

definition is_space :: "char \<Rightarrow> bool" where
  "is_space c =
     (c \<in> set [CHR '' '', CHR 0x09, CHR 0x0A, CHR 0x0B, CHR 0x0C, CHR 0x0D, CHR 0xA0])"

definition trim :: "string \<Rightarrow> string" where
  "trim s = rev (dropWhile is_space (rev (dropWhile is_space s)))"

definition is_digit :: "char \<Rightarrow> bool" where
  "is_digit c = (c \<in> set ''0123456789'')"

text \<open>The test \<open>/^\d{4}-\d{2}-\d{2}$/.test(s)\<close>.\<close>

fun is_iso_date :: "string \<Rightarrow> bool" where
  "is_iso_date [y1, y2, y3, y4, s1, m1, m2, s2, d1, d2] =
     (is_digit y1 \<and> is_digit y2 \<and> is_digit y3 \<and> is_digit y4 \<and> s1 = CHR ''-'' \<and>
      is_digit m1 \<and> is_digit m2 \<and> s2 = CHR ''-'' \<and> is_digit d1 \<and> is_digit d2)"
| "is_iso_date _ = False"

text \<open>Destructuring \<open>const [a, b, c] = xs\<close> of numbers: a missing element is \<open>undefined\<close>,
  which every later use converts to NaN.\<close>

definition elem :: "jsnum list \<Rightarrow> nat \<Rightarrow> jsnum" where
  "elem xs i = (if i < length xs then xs ! i else NaN)"

text \<open>\<open>String(n)\<close> for an integer.\<close>

fun show_nat :: "nat \<Rightarrow> string" where
  "show_nat n =
     (if n < 10 then [''0123456789'' ! n] else show_nat (n div 10) @ [''0123456789'' ! (n mod 10)])"

definition show_int :: "int \<Rightarrow> string" where
  "show_int i = (if i < 0 then CHR ''-'' # show_nat (nat (- i)) else show_nat (nat i))"

section \<open>Calendar dates\<close>

definition msPerDay :: int where
  "msPerDay = 86400000"

text \<open>
  The day number (days since 1970-01-01) of a date of the proleptic Gregorian calendar,
  month 1 to 12, and the inverse.
\<close>

definition days_from_civil :: "int \<Rightarrow> int \<Rightarrow> int \<Rightarrow> int" where
  "days_from_civil y m d =
     (let y' = (if m \<le> 2 then y - 1 else y);
          era = y' div 400;
          yoe = y' - era * 400;
          mp = (m + 9) mod 12;
          doy = (153 * mp + 2) div 5 + d - 1;
          doe = yoe * 365 + yoe div 4 - yoe div 100 + doy
      in era * 146097 + doe - 719468)"

definition civil_from_days :: "int \<Rightarrow> int \<times> int \<times> int" where
  "civil_from_days z =
     (let z' = z + 719468;
          era = z' div 146097;
          doe = z' - era * 146097;
          yoe = (doe - doe div 1460 + doe div 36524 - doe div 146096) div 365;
          doy = doe - (365 * yoe + yoe div 4 - yoe div 100);
          mp = (5 * doy + 2) div 153;
          d = doy - (153 * mp + 2) div 5 + 1;
          m = (if mp < 10 then mp + 3 else mp - 9)
      in ((if m \<le> 2 then yoe + era * 400 + 1 else yoe + era * 400), m, d))"

text \<open>
  \<open>MakeDay(year, month, date)\<close> of ECMAScript on integers: the month index is 0-based and
  may lie outside 0 to 11, the date may lie outside the month; both roll over.
\<close>

definition MakeDay :: "int \<Rightarrow> int \<Rightarrow> int \<Rightarrow> int" where
  "MakeDay year month date =
     days_from_civil (year + month div 12) (month mod 12 + 1) 1 + date - 1"

definition TimeClip :: "int \<Rightarrow> jsdate" where
  "TimeClip t = (if \<bar>t\<bar> \<le> 8640000000000000 then Some t else None)"

definition trunc :: "rat \<Rightarrow> int" where
  "trunc q = (if 0 \<le> q then \<lfloor>q\<rfloor> else \<lceil>q\<rceil>)"

text \<open>
  \<open>new Date(year, monthIndex, day)\<close>: a local calendar date at midnight. A year from 0 to 99
  means 1900 + year; a NaN or infinite component gives an invalid date.
\<close>

fun new_Date_local :: "host \<Rightarrow> jsnum \<Rightarrow> jsnum \<Rightarrow> jsnum \<Rightarrow> jsdate" where
  "new_Date_local h (Num y) (Num m) (Num d) =
     (let yi = trunc y;
          yr = (if 0 \<le> yi \<and> yi \<le> 99 then 1900 + yi else yi)
      in TimeClip (utc_of_local h (MakeDay yr (trunc m) (trunc d) * msPerDay)))"
| "new_Date_local h _ _ _ = None"

text \<open>
  \<open>new Date(value)\<close> with one argument: a string is parsed; any other value is converted
  to a number and taken as the time value, so \<open>undefined\<close> gives an invalid date and
  \<open>null\<close> the epoch.
\<close>

fun new_Date :: "host \<Rightarrow> jsval \<Rightarrow> jsdate" where
  "new_Date h (JStr s) = Date_parse h s"
| "new_Date h v =
     (case ToNumber h v of Num q \<Rightarrow> TimeClip (trunc q) | _ \<Rightarrow> None)"

text \<open>The local calendar fields of a time value: year, month index 0 to 11, day of month.\<close>

definition local_fields :: "host \<Rightarrow> int \<Rightarrow> int \<times> int \<times> int" where
  "local_fields h t =
     (case civil_from_days (local_of_utc h t div msPerDay) of (y, m, d) \<Rightarrow> (y, m - 1, d))"

text \<open>
  \<open>d.setMonth(d.getMonth() - k)\<close> and \<open>d.setFullYear(d.getFullYear() - k)\<close> on a copy of
  \<open>now\<close>: the local date is rebuilt with the new month or year, the time of day is kept.
\<close>

definition months_before :: "host \<Rightarrow> int \<Rightarrow> int \<Rightarrow> jsdate" where
  "months_before h t k =
     (case local_fields h t of (y, m, d) \<Rightarrow>
        TimeClip (utc_of_local h (MakeDay y (m - k) d * msPerDay + local_of_utc h t mod msPerDay)))"

definition years_before :: "host \<Rightarrow> int \<Rightarrow> int \<Rightarrow> jsdate" where
  "years_before h t k =
     (case local_fields h t of (y, m, d) \<Rightarrow>
        TimeClip (utc_of_local h (MakeDay (y - k) m d * msPerDay + local_of_utc h t mod msPerDay)))"

section \<open>Sorting\<close>

text \<open>
  \<open>Array.prototype.sort(comparefn)\<close> as a stable insertion sort: the elements are taken
  from left to right, and each is placed before the first element of the sorted prefix
  that the comparator puts after it (a result below 0; NaN counts as 0). For a consistent
  comparator this is the order ECMAScript prescribes.
\<close>

fun insert_by :: "('a \<Rightarrow> 'a \<Rightarrow> jsnum) \<Rightarrow> 'a \<Rightarrow> 'a list \<Rightarrow> 'a list" where
  "insert_by cmp x [] = [x]"
| "insert_by cmp x (y # ys) =
     (if num_lt (cmp x y) (Num 0) then x # y # ys else y # insert_by cmp x ys)"

definition Array_sort :: "('a \<Rightarrow> 'a \<Rightarrow> jsnum) \<Rightarrow> 'a list \<Rightarrow> 'a list" where
  "Array_sort cmp xs = foldl (\<lambda>acc x. insert_by cmp x acc) [] xs"

datatype direction = asc | desc

record 'k sort_config =
  key :: 'k
  direction :: direction

text \<open>
  \<open>handleSortChange\<close>, the same on every page: the clicked column becomes the key; the
  direction is \<open>desc\<close> if that column was already sorted ascending, else \<open>asc\<close>.
\<close>

definition toggleSort :: "'k sort_config \<Rightarrow> 'k \<Rightarrow> 'k sort_config" where
  "toggleSort prevConfig k =
     \<lparr>key = k,
      direction = (if key prevConfig = k \<and> direction prevConfig = asc then desc else asc)\<rparr>"

section \<open>Pagination window\<close>

text \<open>
  \<open>Array.prototype.slice(start, end)\<close> on integer arguments: a negative index counts from
  the end of the array, and both indices are clamped to the array.
\<close>

definition js_slice :: "int \<Rightarrow> int \<Rightarrow> 'a list \<Rightarrow> 'a list" where
  "js_slice start end xs =
     (let len = int (length xs);
          k = (if start < 0 then max (len + start) 0 else min start len);
          final = (if end < 0 then max (len + end) 0 else min end len)
      in take (nat (final - k)) (drop (nat k) xs))"

text \<open>
  \<open>const totalPages = Math.ceil(filteredData.length / itemsPerPage)\<close>, the same expression
  on the EOL, data-leak and Web3 pages. \<open>itemsPerPage\<close> is the constant 20 (EOL) or 10
  (data leaks, Web3) in the source; it is a parameter here, and positive in every theorem.
\<close>

definition totalPages :: "'a list \<Rightarrow> nat \<Rightarrow> int" where
  "totalPages filteredData itemsPerPage =
     \<lceil>rat_of_nat (length filteredData) / rat_of_nat itemsPerPage\<rceil>"

text \<open>
  \<open>sortedData.slice((currentPage - 1) * itemsPerPage, currentPage * itemsPerPage)\<close>:
  the window is cut at the stored \<open>currentPage\<close>.
\<close>

definition paginatedData :: "'a list \<Rightarrow> int \<Rightarrow> nat \<Rightarrow> 'a list" where
  "paginatedData sortedData currentPage itemsPerPage =
     js_slice ((currentPage - 1) * int itemsPerPage) (currentPage * int itemsPerPage) sortedData"

text \<open>
  The pagination controls, the same on the three pages: First, Previous, a numbered
  button or the page selector (both set the number they show), Next and Last.
\<close>

datatype page_event = First | Previous | PageNumber int | Next | Last

fun page_click :: "int \<Rightarrow> int \<Rightarrow> page_event \<Rightarrow> int" where
  "page_click pages prev First = 1"
| "page_click pages prev Previous = max (prev - 1) 1"
| "page_click pages prev (PageNumber n) = n"
| "page_click pages prev Next = min (prev + 1) pages"
| "page_click pages prev Last = pages"

text \<open>
  The cells of state that the three table pages share: the page shown, the text of the
  search box and the sort column with its direction.
\<close>

record 'k table_state =
  currentPage :: int
  searchQuery :: string
  sortConfig :: "'k sort_config"

text \<open>
  The user's actions on a table page: typing in the search box, setting one of the page's
  own filters, clicking a column header (\<open>handleSortChange\<close>), and the pagination
  controls.
\<close>

datatype ('k, 'f) table_event =
  SetSearchQuery string
| SetFilter 'f
| SortChange 'k
| PageClick page_event

section \<open>The EOL page\<close>

text \<open>
  A software version of the feed. \<open>eol\<close> is a string or a boolean in the declared type;
  the date fields are kept as field values, so that a missing or null field can be
  told from a string. Fields that the table logic never reads (\<open>link\<close>, \<open>codename\<close>,
  \<open>support\<close>) are left out.
\<close>

record SoftwareVersion =
  cycle :: string
  lts :: "bool option"
  releaseDate :: jsval
  eol :: jsval
  latest :: string
  latestReleaseDate :: jsval

record FlattenedSoftwareVersion = SoftwareVersion +
  name :: string
  displayName :: string
  daysRemaining :: jsnum
  status :: string

text \<open>
  The body of \<open>versions.forEach\<close> in \<open>processData\<close>. \<open>eolDate\<close> is a \<open>Date\<close> or null
  (here \<open>None\<close>); \<open>daysRemaining\<close> is a number or undefined (here \<open>None\<close>). A \<open>Date\<close>
  object is truthy even when it is invalid.
\<close>

definition eolDate_of :: "host \<Rightarrow> SoftwareVersion \<Rightarrow> jsdate option" where
  "eolDate_of h version = (case eol version of JStr s \<Rightarrow> Some (Date_parse h s) | _ \<Rightarrow> None)"

definition daysRemaining_of :: "host \<Rightarrow> SoftwareVersion \<Rightarrow> jsnum option" where
  "daysRemaining_of h version =
     (case eolDate_of h version of
        Some eolDate \<Rightarrow> Some (differenceInDays h eolDate (Some (Date_now h)))
      | None \<Rightarrow> None)"

text \<open>The test \<open>daysRemaining && daysRemaining < n\<close>.\<close>

definition truthy_and_below :: "jsnum option \<Rightarrow> rat \<Rightarrow> bool" where
  "truthy_and_below days n =
     (case days of None \<Rightarrow> False | Some v \<Rightarrow> num_truthy v \<and> num_lt v (Num n))"

definition status_of :: "host \<Rightarrow> SoftwareVersion \<Rightarrow> string" where
  "status_of h version =
     (let days = daysRemaining_of h version in
      if eolDate_of h version = None \<or> eol version = JBool False then ''Active''
      else if truthy_and_below days 0 then ''Expired''
      else if truthy_and_below days 30 then ''Critical''
      else if truthy_and_below days 90 then ''Warning''
      else if truthy_and_below days 180 then ''Notice''
      else ''Active'')"

definition flatten_version :: "host \<Rightarrow> string \<Rightarrow> SoftwareVersion \<Rightarrow> FlattenedSoftwareVersion" where
  "flatten_version h nm version =
     \<lparr>cycle = cycle version, lts = lts version, releaseDate = releaseDate version,
      eol = eol version, latest = latest version,
      latestReleaseDate = latestReleaseDate version,
      name = nm,
      displayName = nm @ '' '' @ cycle version @ (if lts version = Some True then '' LTS'' else []),
      daysRemaining = (case daysRemaining_of h version of Some v \<Rightarrow> v | None \<Rightarrow> PInf),
      status = status_of h version\<rparr>"

definition processData ::
  "host \<Rightarrow> (string \<times> SoftwareVersion list) list \<Rightarrow> FlattenedSoftwareVersion list" where
  "processData h data =
     concat (map (\<lambda>(nm, versions). map (flatten_version h nm) versions) data)"

text \<open>The three tests of the predicate of \<open>flattenedData.filter\<close> that gives \<open>filteredData\<close>.\<close>

definition matchesSearch :: "host \<Rightarrow> string \<Rightarrow> FlattenedSoftwareVersion \<Rightarrow> bool" where
  "matchesSearch h query software =
     (query = [] \<or>
      str_includes (toLowerCase h (name software)) (toLowerCase h query) \<or>
      str_includes (toLowerCase h (cycle software)) (toLowerCase h query) \<or>
      str_includes (toLowerCase h (displayName software)) (toLowerCase h query))"

definition matchesStatus :: "string \<Rightarrow> FlattenedSoftwareVersion \<Rightarrow> bool" where
  "matchesStatus statusFilter software =
     (if statusFilter \<noteq> ''all'' then
        if statusFilter = ''expired'' then status software = ''Expired''
        else if statusFilter = ''critical'' then status software = ''Critical''
        else if statusFilter = ''warning'' then status software = ''Warning''
        else if statusFilter = ''notice'' then status software = ''Notice''
        else if statusFilter = ''active'' then status software = ''Active''
        else True
      else True)"

definition matchesSoftware :: "string \<Rightarrow> FlattenedSoftwareVersion \<Rightarrow> bool" where
  "matchesSoftware softwareFilter software =
     (if softwareFilter \<noteq> ''all'' then name software = softwareFilter else True)"

datatype eol_key =
  K_displayName | K_latestReleaseDate | K_releaseDate | K_eol | K_daysRemaining | K_status

text \<open>\<open>a[key]\<close> for the keys that \<open>handleSortChange\<close> is called with.\<close>

fun eol_field :: "FlattenedSoftwareVersion \<Rightarrow> eol_key \<Rightarrow> jsval" where
  "eol_field a K_displayName = JStr (displayName a)"
| "eol_field a K_latestReleaseDate = latestReleaseDate a"
| "eol_field a K_releaseDate = releaseDate a"
| "eol_field a K_eol = eol a"
| "eol_field a K_daysRemaining = JNum (daysRemaining a)"
| "eol_field a K_status = JStr (status a)"

text \<open>\<open>if (typeof aValue === 'string') aValue = new Date(aValue).getTime()\<close>.\<close>

fun date_value :: "host \<Rightarrow> jsval \<Rightarrow> jsval" where
  "date_value h (JStr s) = JNum (getTime (Date_parse h s))"
| "date_value h v = v"

text \<open>The comparator of \<open>sortedData\<close>.\<close>

definition compareSoftware ::
  "host \<Rightarrow> eol_key sort_config \<Rightarrow> FlattenedSoftwareVersion \<Rightarrow> FlattenedSoftwareVersion \<Rightarrow> jsnum" where
  "compareSoftware h cfg a b =
     (let k = key cfg;
          special = (k = K_latestReleaseDate \<or> k = K_releaseDate \<or> k = K_eol);
          aValue = (if special then date_value h (eol_field a k) else eol_field a k);
          bValue = (if special then date_value h (eol_field b k) else eol_field b k)
      in if aValue = JUndefined \<or> aValue = JNull
           then (if direction cfg = asc then Num (- 1) else Num 1)
         else if bValue = JUndefined \<or> bValue = JNull
           then (if direction cfg = asc then Num 1 else Num (- 1))
         else if js_lt h aValue bValue then (if direction cfg = asc then Num (- 1) else Num 1)
         else if js_lt h bValue aValue then (if direction cfg = asc then Num 1 else Num (- 1))
         else Num 0)"

text \<open>The state of the page: the shared cells, the flattened feed and the two selectors.\<close>

record eol_state = "eol_key table_state" +
  flattenedData :: "FlattenedSoftwareVersion list"
  statusFilter :: string
  softwareFilter :: string

definition itemsPerPage_eol :: nat where
  "itemsPerPage_eol = 20"

definition filteredData :: "host \<Rightarrow> eol_state \<Rightarrow> FlattenedSoftwareVersion list" where
  "filteredData h st =
     filter (\<lambda>software. matchesSearch h (searchQuery st) software \<and>
                        matchesStatus (statusFilter st) software \<and>
                        matchesSoftware (softwareFilter st) software) (flattenedData st)"

definition sortedData :: "host \<Rightarrow> eol_state \<Rightarrow> FlattenedSoftwareVersion list" where
  "sortedData h st = Array_sort (compareSoftware h (sortConfig st)) (filteredData h st)"

text \<open>
  The user's actions on the page: typing in the search box, choosing a status (also
  through \<open>scrollToTableWithFilter\<close>) or a software, clicking a column header
  (\<open>handleSortChange\<close>), and the pagination controls.
\<close>

datatype eol_filter = SetStatusFilter string | SetSoftwareFilter string

fun eol_handler :: "host \<Rightarrow> eol_state \<Rightarrow> (eol_key, eol_filter) table_event \<Rightarrow> eol_state" where
  "eol_handler h st (SetSearchQuery v) = st\<lparr>searchQuery := v\<rparr>"
| "eol_handler h st (SetFilter (SetStatusFilter v)) = st\<lparr>statusFilter := v\<rparr>"
| "eol_handler h st (SetFilter (SetSoftwareFilter v)) = st\<lparr>softwareFilter := v\<rparr>"
| "eol_handler h st (SortChange k) = st\<lparr>sortConfig := toggleSort (sortConfig st) k\<rparr>"
| "eol_handler h st (PageClick e) =
     st\<lparr>currentPage :=
          page_click (totalPages (filteredData h st) itemsPerPage_eol) (currentPage st) e\<rparr>"

text \<open>
  One transition: the handler runs, then the effect
  \<open>useEffect(() => setCurrentPage(1), [searchQuery, statusFilter, softwareFilter])\<close>
  runs if one of its dependencies has changed.
\<close>

definition eol_step :: "host \<Rightarrow> eol_state \<Rightarrow> (eol_key, eol_filter) table_event \<Rightarrow> eol_state" where
  "eol_step h st e =
     (let st' = eol_handler h st e in
      if searchQuery st' \<noteq> searchQuery st \<or> statusFilter st' \<noteq> statusFilter st \<or>
         softwareFilter st' \<noteq> softwareFilter st
      then st'\<lparr>currentPage := 1\<rparr> else st')"

section \<open>The data-leak page\<close>

text \<open>
  A record of the feed. \<open>breach_date\<close> is a string in the declared type; it is kept as a
  field value, so that a missing field (\<open>undefined\<close>) and a JSON null can be told from a
  string. \<open>leak_name\<close> is the field \<open>name\<close>.
\<close>

record DataLeak =
  domain :: string
  breach_date :: jsval
  data_leaked :: string
  leak_count :: rat
  description :: string
  leak_name :: string
  references :: "string list"

text \<open>\<open>new Date(leak.breach_date)\<close>.\<close>

definition breachDate :: "host \<Rightarrow> DataLeak \<Rightarrow> jsdate" where
  "breachDate h leak = new_Date h (breach_date leak)"

text \<open>
  \<open>formatDate\<close>, which renders the breach date of a row of the table. For a string it
  returns the formatted date, or the text before the first \<open>T\<close> when formatting throws.
  For a value that is not a string \<open>parseISO\<close> gives an invalid date, \<open>format\<close> throws,
  and the \<open>catch\<close> branch calls \<open>split\<close> on the value, which throws a TypeError.
\<close>

definition formatDate :: "host \<Rightarrow> jsval \<Rightarrow> error + string" where
  "formatDate h dateString =
     (case dateString of
        JStr s \<Rightarrow>
          (case format_date h s of
             Some text \<Rightarrow> Inr text
           | None \<Rightarrow> (case split_on CHR ''T'' s of [] \<Rightarrow> Inr [] | t # _ \<Rightarrow> Inr t))
      | _ \<Rightarrow> Inl TypeError)"

datatype leak_key = L_name | L_breach_date | L_data_leaked | L_leak_count

text \<open>The values that the comparator of \<open>results.sort\<close> compares.\<close>

fun leak_value :: "host \<Rightarrow> DataLeak \<Rightarrow> leak_key \<Rightarrow> jsval" where
  "leak_value h a L_breach_date = JNum (getTime (breachDate h a))"
| "leak_value h a L_leak_count = JNum (Num (leak_count a))"
| "leak_value h a L_name = JStr (leak_name a)"
| "leak_value h a L_data_leaked = JStr (data_leaked a)"

definition compareLeaks :: "host \<Rightarrow> leak_key sort_config \<Rightarrow> DataLeak \<Rightarrow> DataLeak \<Rightarrow> jsnum" where
  "compareLeaks h cfg a b =
     (let aValue = leak_value h a (key cfg);
          bValue = leak_value h b (key cfg)
      in if js_lt h aValue bValue then (if direction cfg = asc then Num (- 1) else Num 1)
         else if js_lt h bValue aValue then (if direction cfg = asc then Num 1 else Num (- 1))
         else Num 0)"

record leak_state = "leak_key table_state" +
  dataLeaks :: "DataLeak list"
  filteredLeaks :: "DataLeak list"
  dataTypeFilter :: string
  startDate :: string
  endDate :: string

definition itemsPerPage_leaks :: nat where
  "itemsPerPage_leaks = 10"

text \<open>The four filters of the filtering effect, in the order of the source.\<close>

definition searchLeaks :: "host \<Rightarrow> string \<Rightarrow> DataLeak list \<Rightarrow> DataLeak list" where
  "searchLeaks h query results =
     (if query \<noteq> [] then
        filter (\<lambda>leak. str_includes (toLowerCase h (leak_name leak)) (toLowerCase h query) \<or>
                       str_includes (toLowerCase h (domain leak)) (toLowerCase h query) \<or>
                       str_includes (toLowerCase h (data_leaked leak)) (toLowerCase h query)) results
      else results)"

definition dataTypeLeaks :: "host \<Rightarrow> string \<Rightarrow> DataLeak list \<Rightarrow> DataLeak list" where
  "dataTypeLeaks h dataType results =
     (if dataType \<noteq> ''all'' then
        filter (\<lambda>leak. str_includes (toLowerCase h (data_leaked leak)) (toLowerCase h dataType)) results
      else results)"

definition fromStartDate :: "host \<Rightarrow> string \<Rightarrow> DataLeak list \<Rightarrow> DataLeak list" where
  "fromStartDate h start results =
     (if start \<noteq> [] then
        filter (\<lambda>leak. date_ge (breachDate h leak) (Date_parse h start)) results
      else results)"

definition toEndDate :: "host \<Rightarrow> string \<Rightarrow> DataLeak list \<Rightarrow> DataLeak list" where
  "toEndDate h end results =
     (if end \<noteq> [] then
        filter (\<lambda>leak. date_le (breachDate h leak) (Date_parse h end)) results
      else results)"

text \<open>The body of the filtering effect: what it passes to \<open>setFilteredLeaks\<close>.\<close>

definition applyFilters :: "host \<Rightarrow> leak_state \<Rightarrow> DataLeak list" where
  "applyFilters h st =
     Array_sort (compareLeaks h (sortConfig st))
       (toEndDate h (endDate st)
         (fromStartDate h (startDate st)
           (dataTypeLeaks h (dataTypeFilter st)
             (searchLeaks h (searchQuery st) (dataLeaks st)))))"

text \<open>
  The number on the card of exposed records:
  \<open>dataLeaks.reduce((total, leak) => total + leak.leak_count, 0)\<close>.
\<close>

definition exposedRecords :: "host \<Rightarrow> leak_state \<Rightarrow> rat" where
  "exposedRecords h st = foldl (\<lambda>total leak. add_double h total (leak_count leak)) 0 (dataLeaks st)"

datatype leak_filter =
  SetDataTypeFilter string | SetStartDate string | SetEndDate string | ResetFilters

fun leak_handler :: "leak_state \<Rightarrow> (leak_key, leak_filter) table_event \<Rightarrow> leak_state" where
  "leak_handler st (SetSearchQuery v) = st\<lparr>searchQuery := v\<rparr>"
| "leak_handler st (SetFilter (SetDataTypeFilter v)) = st\<lparr>dataTypeFilter := v\<rparr>"
| "leak_handler st (SetFilter (SetStartDate v)) = st\<lparr>startDate := v\<rparr>"
| "leak_handler st (SetFilter (SetEndDate v)) = st\<lparr>endDate := v\<rparr>"
| "leak_handler st (SetFilter ResetFilters) =
     st\<lparr>searchQuery := [], dataTypeFilter := ''all'', startDate := [], endDate := []\<rparr>"
| "leak_handler st (SortChange k) = st\<lparr>sortConfig := toggleSort (sortConfig st) k\<rparr>"
| "leak_handler st (PageClick e) =
     st\<lparr>currentPage :=
          page_click (totalPages (filteredLeaks st) itemsPerPage_leaks) (currentPage st) e\<rparr>"

text \<open>
  One transition: the handler runs; the filtering effect runs if one of \<open>searchQuery\<close>,
  \<open>dataTypeFilter\<close>, the two dates or \<open>sortConfig\<close> has changed (the feed is loaded once
  and does not change afterwards); then the effect
  \<open>useEffect(() => setCurrentPage(1), [searchQuery, dataTypeFilter, startDate, endDate])\<close>
  runs if one of its dependencies has changed.
\<close>

definition leak_filters_changed :: "leak_state \<Rightarrow> leak_state \<Rightarrow> bool" where
  "leak_filters_changed st st' =
     (searchQuery st' \<noteq> searchQuery st \<or> dataTypeFilter st' \<noteq> dataTypeFilter st \<or>
      startDate st' \<noteq> startDate st \<or> endDate st' \<noteq> endDate st)"

definition leak_step :: "host \<Rightarrow> leak_state \<Rightarrow> (leak_key, leak_filter) table_event \<Rightarrow> leak_state" where
  "leak_step h st e =
     (let st1 = leak_handler st e;
          st2 = (if leak_filters_changed st st1 \<or> sortConfig st1 \<noteq> sortConfig st
                 then st1\<lparr>filteredLeaks := applyFilters h st1\<rparr> else st1)
      in if leak_filters_changed st st1 then st2\<lparr>currentPage := 1\<rparr> else st2)"

section \<open>The Web3 threats page\<close>

text \<open>
  A record of the feed. A string field is \<open>None\<close> when it is null or missing: the code
  reads these fields through \<open>?.\<close>, \<open>??\<close>, \<open>||\<close> and \<open>!\<close>, which treat both alike.
\<close>

record ExploitDetail =
  project_name :: "string option"
  quick_summary :: "string option"
  details :: "string option"
  block_data :: "string list option"
  proof_link :: "string option"
  funds_lost :: "rat option"
  date :: "string option"
  root_cause :: "string option"
  scam_type :: "string option"
  website_link :: "string option"
  name_categories :: "string option"
  chain :: "string option"
  token_name :: "string option"
  token_address :: "string option"

datatype TimeFilter = T_3m | T_6m | T_1y | T_all

text \<open>\<open>getStartDate\<close>: three or six months or a year before now, or the epoch for \<open>'all'\<close>.\<close>

fun getStartDate :: "host \<Rightarrow> TimeFilter \<Rightarrow> jsdate" where
  "getStartDate h T_3m = months_before h (Date_now h) 3"
| "getStartDate h T_6m = months_before h (Date_now h) 6"
| "getStartDate h T_1y = years_before h (Date_now h) 1"
| "getStartDate h T_all = Some 0"

text \<open>
  \<open>const [year, month, day] = s.split('-').map(Number)\<close> followed by
  \<open>new Date(year, month - 1, day)\<close>: the local calendar date of the three numbers.
\<close>

definition localDate :: "host \<Rightarrow> string \<Rightarrow> jsdate" where
  "localDate h s =
     (let parts = map (js_Number h) (split_on CHR ''-'' s)
      in new_Date_local h (elem parts 0) (num_sub (elem parts 1) (Num 1)) (elem parts 2))"

text \<open>
  The date that the time filter builds from a non-empty date string: the local date for a
  string of the form YYYY-MM-DD, and \<open>new Date(s)\<close> for any other string.
\<close>

definition exploitDate :: "host \<Rightarrow> string \<Rightarrow> jsdate" where
  "exploitDate h s = (if is_iso_date s then localDate h s else Date_parse h s)"

text \<open>The predicate of \<open>exploits.filter\<close> in \<open>getFilteredData\<close>.\<close>

definition inTimeRange :: "host \<Rightarrow> jsdate \<Rightarrow> ExploitDetail \<Rightarrow> bool" where
  "inTimeRange h start exploit =
     (case date exploit of
        None \<Rightarrow> False
      | Some s \<Rightarrow>
          if s = [] then False
          else if num_lt (elem (map (js_Number h) (split_on CHR ''-'' s)) 0) (Num 2015) then False
          else if exploitDate h s = None then False
          else date_ge (exploitDate h s) start)"

definition getFilteredData :: "host \<Rightarrow> TimeFilter \<Rightarrow> ExploitDetail list \<Rightarrow> ExploitDetail list" where
  "getFilteredData h timeFilter exploits =
     (if exploits = [] then []
      else filter (inTimeRange h (getStartDate h timeFilter)) exploits)"

text \<open>\<open>field?.toLowerCase().includes(query)\<close>, falsy for a null field.\<close>

definition field_includes :: "host \<Rightarrow> string option \<Rightarrow> string \<Rightarrow> bool" where
  "field_includes h field query =
     (case field of None \<Rightarrow> False | Some s \<Rightarrow> str_includes (toLowerCase h s) query)"

definition matchesQuery :: "host \<Rightarrow> string \<Rightarrow> ExploitDetail \<Rightarrow> bool" where
  "matchesQuery h query exploit =
     (if trim query = [] then True
      else field_includes h (project_name exploit) (toLowerCase h query) \<or>
           field_includes h (quick_summary exploit) (toLowerCase h query) \<or>
           field_includes h (scam_type exploit) (toLowerCase h query))"

definition matchesType :: "string \<Rightarrow> ExploitDetail \<Rightarrow> bool" where
  "matchesType typeFilter exploit =
     (if typeFilter = ''all'' then True else scam_type exploit = Some typeFilter)"

definition matchesCategory :: "string \<Rightarrow> ExploitDetail \<Rightarrow> bool" where
  "matchesCategory categoryFilter exploit =
     (if categoryFilter = ''all'' then True
      else (case name_categories exploit of
              None \<Rightarrow> False
            | Some s \<Rightarrow> list_ex (\<lambda>cat. trim cat = categoryFilter) (split_on CHR '','' s)))"

definition matchesProject :: "string \<Rightarrow> ExploitDetail \<Rightarrow> bool" where
  "matchesProject projectFilter exploit =
     (if projectFilter = ''all'' then True else project_name exploit = Some projectFilter)"

datatype exploit_key =
  E_project_name | E_quick_summary | E_details | E_block_data | E_proof_link | E_funds_lost
| E_date | E_root_cause | E_scam_type | E_website_link | E_name_categories | E_chain
| E_token_name | E_token_address

record web3_state = "exploit_key table_state" +
  exploits :: "ExploitDetail list"
  timeFilter :: TimeFilter
  typeFilter :: string
  categoryFilter :: string
  chainFilter :: string
  projectFilter :: string

definition pageSize :: nat where
  "pageSize = 10"

text \<open>The chain of filtered lists, under the names of the source.\<close>

definition filteredExploits :: "host \<Rightarrow> web3_state \<Rightarrow> ExploitDetail list" where
  "filteredExploits h st = getFilteredData h (timeFilter st) (exploits st)"

definition searchFilteredExploits :: "host \<Rightarrow> web3_state \<Rightarrow> ExploitDetail list" where
  "searchFilteredExploits h st = filter (matchesQuery h (searchQuery st)) (filteredExploits h st)"

definition typeFilteredExploits :: "host \<Rightarrow> web3_state \<Rightarrow> ExploitDetail list" where
  "typeFilteredExploits h st = filter (matchesType (typeFilter st)) (searchFilteredExploits h st)"

definition categoryFilteredExploits :: "host \<Rightarrow> web3_state \<Rightarrow> ExploitDetail list" where
  "categoryFilteredExploits h st =
     filter (matchesCategory (categoryFilter st)) (typeFilteredExploits h st)"

definition projectFilteredExploits :: "host \<Rightarrow> web3_state \<Rightarrow> ExploitDetail list" where
  "projectFilteredExploits h st =
     filter (matchesProject (projectFilter st)) (categoryFilteredExploits h st)"

text \<open>\<open>exploit.funds_lost ?? 0\<close>.\<close>

definition funds_or_0 :: "ExploitDetail \<Rightarrow> rat" where
  "funds_or_0 exploit = (case funds_lost exploit of None \<Rightarrow> 0 | Some v \<Rightarrow> v)"

text \<open>
  \<open>projectFilteredExploits.reduce((sum, exploit) => sum + (exploit.funds_lost ?? 0), 0)\<close>
  and the average over the same list; the sum is taken from left to right in doubles.
\<close>

definition totalLosses :: "host \<Rightarrow> web3_state \<Rightarrow> rat" where
  "totalLosses h st =
     foldl (\<lambda>sum exploit. add_double h sum (funds_or_0 exploit)) 0 (projectFilteredExploits h st)"

definition averageLoss :: "host \<Rightarrow> web3_state \<Rightarrow> rat" where
  "averageLoss h st =
     (if length (projectFilteredExploits h st) > 0
      then div_double h (totalLosses h st) (rat_of_nat (length (projectFilteredExploits h st)))
      else 0)"

text \<open>A field value \<open>a[sortConfig.key]\<close> of an exploit: null, a string, a number or an array.\<close>

datatype fval = VNull | VStr string | VNum rat | VArr "string list"

definition of_str :: "string option \<Rightarrow> fval" where
  "of_str v = (case v of None \<Rightarrow> VNull | Some s \<Rightarrow> VStr s)"

fun exploit_field :: "ExploitDetail \<Rightarrow> exploit_key \<Rightarrow> fval" where
  "exploit_field a E_project_name = of_str (project_name a)"
| "exploit_field a E_quick_summary = of_str (quick_summary a)"
| "exploit_field a E_details = of_str (details a)"
| "exploit_field a E_block_data = (case block_data a of None \<Rightarrow> VNull | Some xs \<Rightarrow> VArr xs)"
| "exploit_field a E_proof_link = of_str (proof_link a)"
| "exploit_field a E_funds_lost = (case funds_lost a of None \<Rightarrow> VNull | Some v \<Rightarrow> VNum v)"
| "exploit_field a E_date = of_str (date a)"
| "exploit_field a E_root_cause = of_str (root_cause a)"
| "exploit_field a E_scam_type = of_str (scam_type a)"
| "exploit_field a E_website_link = of_str (website_link a)"
| "exploit_field a E_name_categories = of_str (name_categories a)"
| "exploit_field a E_chain = of_str (chain a)"
| "exploit_field a E_token_name = of_str (token_name a)"
| "exploit_field a E_token_address = of_str (token_address a)"

text \<open>\<open>x.localeCompare(y)\<close> when ascending, \<open>y.localeCompare(x)\<close> when descending.\<close>

definition compareStrings :: "host \<Rightarrow> direction \<Rightarrow> string \<Rightarrow> string \<Rightarrow> jsnum" where
  "compareStrings h dir x y =
     Num (rat_of_int (if dir = asc then localeCompare h x y else localeCompare h y x))"

text \<open>\<open>a.date || ''\<close>.\<close>

definition date_or_empty :: "ExploitDetail \<Rightarrow> string" where
  "date_or_empty a = (case date a of None \<Rightarrow> [] | Some s \<Rightarrow> s)"

text \<open>
  The time value that the comparator builds from \<open>a.date\<close>: the local date if
  \<open>a.date\<close> is a string of the form YYYY-MM-DD, else \<open>new Date(a.date || '')\<close>.
\<close>

definition sortDate :: "host \<Rightarrow> ExploitDetail \<Rightarrow> jsnum" where
  "sortDate h a =
     getTime (case date a of
                Some s \<Rightarrow> if is_iso_date s then localDate h s else Date_parse h (date_or_empty a)
              | None \<Rightarrow> Date_parse h (date_or_empty a))"

text \<open>\<open>a.token_name?.split(',')[0]?.trim() || ''\<close>.\<close>

definition firstToken :: "ExploitDetail \<Rightarrow> string" where
  "firstToken a =
     (case token_name a of
        None \<Rightarrow> []
      | Some s \<Rightarrow> (case split_on CHR '','' s of [] \<Rightarrow> [] | t # _ \<Rightarrow> trim t))"

text \<open>The comparator of \<open>sortedExploits\<close>.\<close>

definition compareExploits ::
  "host \<Rightarrow> exploit_key sort_config \<Rightarrow> ExploitDetail \<Rightarrow> ExploitDetail \<Rightarrow> jsnum" where
  "compareExploits h cfg a b =
     (let aValue = exploit_field a (key cfg);
          bValue = exploit_field b (key cfg);
          dir = direction cfg
      in if aValue = VNull then (if dir = asc then Num (- 1) else Num 1)
         else if bValue = VNull then (if dir = asc then Num 1 else Num (- 1))
         else if key cfg = E_date then
           (let dateA = sortDate h a; dateB = sortDate h b
            in if dateA = NaN \<or> dateB = NaN
               then compareStrings h dir (date_or_empty a) (date_or_empty b)
               else (if dir = asc then num_sub dateA dateB else num_sub dateB dateA))
         else if key cfg = E_funds_lost then
           (let fundsA = funds_or_0 a; fundsB = funds_or_0 b
            in if dir = asc then Num (fundsA - fundsB) else Num (fundsB - fundsA))
         else if key cfg = E_token_name then compareStrings h dir (firstToken a) (firstToken b)
         else (case (aValue, bValue) of
                 (VStr x, VStr y) \<Rightarrow> compareStrings h dir x y
               | _ \<Rightarrow> Num 0))"

definition sortedExploits :: "host \<Rightarrow> web3_state \<Rightarrow> ExploitDetail list" where
  "sortedExploits h st =
     Array_sort (compareExploits h (sortConfig st)) (projectFilteredExploits h st)"

definition paginatedExploits :: "host \<Rightarrow> web3_state \<Rightarrow> ExploitDetail list" where
  "paginatedExploits h st = paginatedData (sortedExploits h st) (currentPage st) pageSize"

text \<open>
  The handlers of the page. The search box and the category and type selectors call
  \<open>setCurrentPage(1)\<close> themselves, and so does \<open>handleSortChange\<close>; the time-range buttons
  call \<open>setTimeFilter\<close> only. No control calls \<open>setChainFilter\<close> or \<open>setProjectFilter\<close>.
\<close>

datatype web3_filter = SetTimeFilter TimeFilter | SetCategoryFilter string | SetTypeFilter string

fun web3_step :: "host \<Rightarrow> web3_state \<Rightarrow> (exploit_key, web3_filter) table_event \<Rightarrow> web3_state" where
  "web3_step h st (SetSearchQuery v) = st\<lparr>searchQuery := v, currentPage := 1\<rparr>"
| "web3_step h st (SetFilter (SetCategoryFilter v)) = st\<lparr>categoryFilter := v, currentPage := 1\<rparr>"
| "web3_step h st (SetFilter (SetTypeFilter v)) = st\<lparr>typeFilter := v, currentPage := 1\<rparr>"
| "web3_step h st (SetFilter (SetTimeFilter v)) = st\<lparr>timeFilter := v\<rparr>"
| "web3_step h st (SortChange k) =
     st\<lparr>sortConfig := toggleSort (sortConfig st) k, currentPage := 1\<rparr>"
| "web3_step h st (PageClick e) =
     st\<lparr>currentPage := page_click (totalPages (sortedExploits h st) pageSize) (currentPage st) e\<rparr>"

text \<open>
  The label of a record's month for the chart: the short name of the month and the year
  of \<open>new Date(exploit.date)\<close>, both read in local time. An invalid date prints as
  \<open>Invalid Date\<close> and its year as \<open>NaN\<close>.
\<close>

definition monthYear :: "host \<Rightarrow> string \<Rightarrow> string" where
  "monthYear h s =
     (case Date_parse h s of
        None \<Rightarrow> ''Invalid Date NaN''
      | Some t \<Rightarrow> (case local_fields h t of (y, m, d) \<Rightarrow> month_short h m @ '' '' @ show_int y))"

text \<open>
  One step of the \<open>reduce\<close>: the value is added to the first item labelled with the month,
  or a new item is pushed at the end. An item \<open>{date, value}\<close> is a pair.
\<close>

fun add_to_month ::
  "host \<Rightarrow> (string \<times> rat) list \<Rightarrow> string \<Rightarrow> rat \<Rightarrow> (string \<times> rat) list" where
  "add_to_month h [] m v = [(m, v)]"
| "add_to_month h ((d, x) # acc) m v =
     (if d = m then (d, add_double h x v) # acc else (d, x) # add_to_month h acc m v)"

definition bucket :: "host \<Rightarrow> (string \<times> rat) list \<Rightarrow> ExploitDetail \<Rightarrow> (string \<times> rat) list" where
  "bucket h acc exploit =
     (case date exploit of
        None \<Rightarrow> acc
      | Some s \<Rightarrow> if s = [] then acc else add_to_month h acc (monthYear h s) (funds_or_0 exploit))"

text \<open>The comparator of the chart series: the difference of the parsed labels.\<close>

definition compareLabels :: "host \<Rightarrow> string \<times> rat \<Rightarrow> string \<times> rat \<Rightarrow> jsnum" where
  "compareLabels h a b = num_sub (getTime (Date_parse h (fst a))) (getTime (Date_parse h (fst b)))"

definition lossesOverTimeData :: "host \<Rightarrow> ExploitDetail list \<Rightarrow> (string \<times> rat) list" where
  "lossesOverTimeData h filtered = Array_sort (compareLabels h) (foldl (bucket h) [] filtered)"

section \<open>The edge proxy\<close>

text \<open>The letters A to Z in lower case, as \<open>Headers\<close> normalises a header name.\<close>

definition lower_char :: "char \<Rightarrow> char" where
  "lower_char c =
     (if CHR ''A'' \<le> c \<and> c \<le> CHR ''Z'' then char_of (of_char c + (32::nat)) else c)"

definition lower_ascii :: "string \<Rightarrow> string" where
  "lower_ascii s = map lower_char s"



















section \<open>A host for evaluation\<close>

text \<open>
  An instance of the host, for evaluating the pages on examples: a browser with English
  month names in a time zone at a fixed offset from UTC. Its \<open>Number\<close> and its date parser
  are those of ECMAScript on the strings of the examples: \<open>Number\<close> reads the empty string
  as 0 and a string of up to 15 digits as its decimal value, and gives NaN for a string
  with any other character (signs, fractions, exponents and white space do not occur in
  the examples); the date parser
  reads YYYY-MM-DD as midnight UTC and a label like \<open>Jan 2024\<close> as local midnight of the
  first of the month, and gives an invalid date otherwise. Sums and quotients are exact:
  those of the examples are whole numbers or binary fractions, which doubles hold.
  \<open>format_date\<close> prints a calendar date written as YYYY-MM-DD with its month, day and
  year, and throws for any other string; the examples hold no date with a time of day.
\<close>

definition digit_value :: "char \<Rightarrow> int" where
  "digit_value c = int (of_char c) - 48"

definition digits_value :: "string \<Rightarrow> int" where
  "digits_value s = foldl (\<lambda>n c. 10 * n + digit_value c) 0 s"

definition Number_digits :: "string \<Rightarrow> jsnum" where
  "Number_digits s = (if list_all is_digit s then Num (rat_of_int (digits_value s)) else NaN)"

definition month_names :: "string list" where
  "month_names = [''Jan'', ''Feb'', ''Mar'', ''Apr'', ''May'', ''Jun'',
                  ''Jul'', ''Aug'', ''Sep'', ''Oct'', ''Nov'', ''Dec'']"

fun index_of :: "'a \<Rightarrow> 'a list \<Rightarrow> int option" where
  "index_of x [] = None"
| "index_of x (y # ys) = (if x = y then Some 0 else map_option (\<lambda>i. i + 1) (index_of x ys))"

definition parse_date :: "int \<Rightarrow> string \<Rightarrow> jsdate" where
  "parse_date offset s =
     (if is_iso_date s then
        (let y = digits_value (take 4 s); m = digits_value (take 2 (drop 5 s));
             d = digits_value (drop 8 s)
         in if 1 \<le> m \<and> m \<le> 12 \<and> 1 \<le> d \<and> d \<le> 31
            then Some (days_from_civil y m d * msPerDay) else None)
      else if length s = 8 \<and> s ! 3 = CHR '' '' \<and> list_all is_digit (drop 4 s) then
        (case index_of (take 3 s) month_names of
           None \<Rightarrow> None
         | Some m \<Rightarrow> Some (days_from_civil (digits_value (drop 4 s)) (m + 1) 1 * msPerDay - offset))
      else None)"

definition compare_units :: "string \<Rightarrow> string \<Rightarrow> int" where
  "compare_units a b = (if a < b then - 1 else if a = b then 0 else 1)"

definition whole_days :: "jsdate \<Rightarrow> jsdate \<Rightarrow> jsnum" where
  "whole_days a b =
     (case (a, b) of
        (Some x, Some y) \<Rightarrow> Num (rat_of_int (trunc (rat_of_int (x - y) / rat_of_int msPerDay)))
      | _ \<Rightarrow> NaN)"

definition print_date :: "string \<Rightarrow> string option" where
  "print_date s =
     (let m = digits_value (take 2 (drop 5 s)); d = digits_value (drop 8 s)
      in if is_iso_date s \<and> 1 \<le> m \<and> m \<le> 12 \<and> 1 \<le> d \<and> d \<le> 31
         then Some (month_names ! nat (m - 1) @ '' '' @ show_int d @ '', '' @ take 4 s)
         else None)"

definition browser :: "int \<Rightarrow> int \<Rightarrow> host" where
  "browser offset now =
     \<lparr>js_Number = Number_digits,
      Date_parse = parse_date offset,
      utc_of_local = (\<lambda>t. t - offset),
      local_of_utc = (\<lambda>t. t + offset),
      Date_now = now,
      localeCompare = compare_units,
      month_short = (\<lambda>m. if 0 \<le> m \<and> m < 12 then month_names ! nat m else []),
      toLowerCase = lower_ascii,
      differenceInDays = whole_days,
      add_double = (\<lambda>a b. a + b),
      div_double = (\<lambda>a b. a / b),
      format_date = print_date\<rparr>"

section \<open>Example records\<close>

text \<open>A version whose end of life is the first of January 2024.\<close>

definition example_version :: SoftwareVersion where
  "example_version =
     \<lparr>cycle = ''22.04'', lts = Some True, releaseDate = JStr ''2022-04-21'',
      eol = JStr ''2024-01-01'', latest = ''22.04.3'', latestReleaseDate = JStr ''2023-08-10''\<rparr>"




text \<open>An exploit with a date and a loss, and a state of the Web3 page over a feed.\<close>

definition example_exploit :: "string \<Rightarrow> rat option \<Rightarrow> ExploitDetail" where
  "example_exploit d f =
     \<lparr>project_name = Some ''Bridge'', quick_summary = Some ''Key compromise'', details = None,
      block_data = None, proof_link = None, funds_lost = f, date = Some d, root_cause = None,
      scam_type = Some ''Exploit'', website_link = None, name_categories = Some ''DeFi, Bridge'',
      chain = None, token_name = None, token_address = None\<rparr>"

definition example_web3 :: "ExploitDetail list \<Rightarrow> web3_state" where
  "example_web3 feed =
     \<lparr>currentPage = 1, searchQuery = [], sortConfig = \<lparr>key = E_date, direction = desc\<rparr>,
      exploits = feed, timeFilter = T_all, typeFilter = ''all'', categoryFilter = ''all'',
      chainFilter = ''all'', projectFilter = ''all''\<rparr>"

text \<open>
  A feed of five exploits: four dated from December 2023 to March 2024, one of them of
  another type and one without a loss, and one dated 2013.
\<close>

definition example_feed :: "ExploitDetail list" where
  "example_feed =
     [example_exploit ''2023-12-01'' (Some 100),
      (example_exploit ''2024-01-15'' (Some 50))\<lparr>scam_type := Some ''Rugpull''\<rparr>,
      example_exploit ''2024-02-20'' None,
      example_exploit ''2024-03-05'' (Some 25),
      example_exploit ''2013-03-05'' (Some 1000)]"

text \<open>The initial state of the EOL page over a feed of 21 versions: two pages.\<close>

definition example_eol :: eol_state where
  "example_eol =
     \<lparr>currentPage = 1, searchQuery = [],
      sortConfig = \<lparr>key = K_daysRemaining, direction = asc\<rparr>,
      flattenedData =
        replicate 21 (flatten_version (browser 0 1704070800000) ''ubuntu'' example_version),
      statusFilter = ''all'', softwareFilter = ''all''\<rparr>"

text \<open>
  A data leak with a breach date, or without the field, and the initial state of the
  data-leak page.
\<close>

definition example_leak :: "string option \<Rightarrow> DataLeak" where
  "example_leak d =
     \<lparr>domain = ''shop.example'',
      breach_date = (case d of None \<Rightarrow> JUndefined | Some s \<Rightarrow> JStr s),
      data_leaked = ''Email addresses, Passwords'',
      leak_count = 1200, description = ''Customer database'', leak_name = ''Shop'',
      references = []\<rparr>"

definition example_leaks :: "DataLeak list \<Rightarrow> leak_state" where
  "example_leaks feed =
     \<lparr>currentPage = 1, searchQuery = [],
      sortConfig = \<lparr>key = L_breach_date, direction = desc\<rparr>,
      dataLeaks = feed, filteredLeaks = feed, dataTypeFilter = ''all'',
      startDate = [], endDate = []\<rparr>"

section \<open>The pagination window\<close>

lemma ceiling_bounds:
  assumes "1 \<le> p"
  shows "int (length xs) \<le> totalPages xs p * int p"
    and "(totalPages xs p - 1) * int p < int (length xs)"
proof -
  let ?x = "rat_of_nat (length xs) / rat_of_nat p"
  have p0: "(0::rat) < rat_of_nat p" using assms by simp
  have "?x \<le> rat_of_int \<lceil>?x\<rceil>" by (rule le_of_int_ceiling)
  with p0 have "rat_of_nat (length xs) \<le> rat_of_int \<lceil>?x\<rceil> * rat_of_nat p"
    by (simp only: pos_divide_le_eq)
  then have "rat_of_int (int (length xs)) \<le> rat_of_int (\<lceil>?x\<rceil> * int p)" by simp
  then show "int (length xs) \<le> totalPages xs p * int p"
    unfolding totalPages_def by (simp only: of_int_le_iff)
  have "rat_of_int (\<lceil>?x\<rceil> - 1) < ?x" using ceiling_correct[of ?x] by simp
  with p0 have "rat_of_int (\<lceil>?x\<rceil> - 1) * rat_of_nat p < rat_of_nat (length xs)"
    by (simp only: pos_less_divide_eq)
  then have "rat_of_int ((\<lceil>?x\<rceil> - 1) * int p) < rat_of_int (int (length xs))" by simp
  then show "(totalPages xs p - 1) * int p < int (length xs)"
    unfolding totalPages_def by (simp only: of_int_less_iff)
qed

lemma page_le_totalPages_iff:
  assumes "1 \<le> p"
  shows "c \<le> totalPages xs p \<longleftrightarrow> (c - 1) * int p < int (length xs)"
proof -
  have p0: "(0::rat) < rat_of_nat p" using assms by simp
  have "c \<le> totalPages xs p \<longleftrightarrow> c - 1 < totalPages xs p" by auto
  also have "\<dots> \<longleftrightarrow> rat_of_int (c - 1) < rat_of_nat (length xs) / rat_of_nat p"
    unfolding totalPages_def by (rule less_ceiling_iff)
  also have "\<dots> \<longleftrightarrow> rat_of_int (c - 1) * rat_of_nat p < rat_of_nat (length xs)"
    using p0 by (simp only: pos_less_divide_eq)
  also have "\<dots> \<longleftrightarrow> rat_of_int ((c - 1) * int p) < rat_of_int (int (length xs))" by simp
  also have "\<dots> \<longleftrightarrow> (c - 1) * int p < int (length xs)" by (simp only: of_int_less_iff)
  finally show ?thesis .
qed

lemma paginatedData_positive:
  assumes "1 \<le> c"
  shows "paginatedData xs c p = take p (drop (nat (c - 1) * p) xs)"
proof -
  define m where "m = nat (c - 1) * p"
  have s: "(c - 1) * int p = int m" using assms by (simp add: m_def)
  have e: "c * int p = int m + int p" using s by (simp add: algebra_simps)
  have "js_slice (int m) (int m + int p) xs = take p (drop m xs)"
  proof (cases "m \<le> length xs")
    case True
    show ?thesis
    proof (cases "m + p \<le> length xs")
      case True
      then show ?thesis by (simp add: js_slice_def Let_def min_def)
    next
      case False
      then have "take (length xs - m) (drop m xs) = take p (drop m xs)" by simp
      then show ?thesis using False True by (simp add: js_slice_def Let_def min_def)
    qed
  next
    case False
    then show ?thesis by (simp add: js_slice_def Let_def min_def)
  qed
  then show ?thesis unfolding paginatedData_def s e m_def .
qed

lemma paginatedData_nonempty_iff:
  assumes "1 \<le> p" "1 \<le> c"
  shows "paginatedData xs c p \<noteq> [] \<longleftrightarrow> c \<le> totalPages xs p"
proof -
  define m where "m = nat (c - 1) * p"
  have s: "(c - 1) * int p = int m" using assms by (simp add: m_def)
  have "paginatedData xs c p = take p (drop m xs)"
    unfolding m_def by (rule paginatedData_positive[OF assms(2)])
  moreover have "take p (drop m xs) \<noteq> [] \<longleftrightarrow> m < length xs"
    using assms(1) by (cases "drop m xs") (auto simp: not_le[symmetric])
  ultimately have "paginatedData xs c p \<noteq> [] \<longleftrightarrow> m < length xs" by simp
  also have "\<dots> \<longleftrightarrow> c \<le> totalPages xs p"
    by (simp add: page_le_totalPages_iff[OF assms(1)] s)
  finally show ?thesis .
qed

text \<open>
  C2, as the spec states it, fails: for an empty filtered list \<open>totalPages\<close> is 0, not
  \<open>max(1, ceil(0 / pageSize)) = 1\<close>, and the page of the initial state, 1, is then outside
  the range from 1 to \<open>totalPages\<close>.
\<close>

theorem totalPages_empty_counterexample:
  "totalPages ([]::DataLeak list) itemsPerPage_leaks
     \<noteq> max 1 \<lceil>rat_of_nat (length ([]::DataLeak list)) / rat_of_nat itemsPerPage_leaks\<rceil>
   \<and> \<not> (1 \<le> (1::int) \<and> 1 \<le> totalPages ([]::DataLeak list) itemsPerPage_leaks)"
  by (simp add: totalPages_def itemsPerPage_leaks_def)

text \<open>
  C2, amended: for every page size of at least 1 and every filtered list, \<open>totalPages\<close> is
  the ceiling of the quotient of the count by the page size (the least number of pages
  that hold the list); this is \<open>max(1, ceil(count / pageSize))\<close> for a non-empty list and
  0 for the empty list. The window is cut at the stored \<open>currentPage\<close>, which is not
  clamped: for a page of at least 1 the window is the \<open>pageSize\<close> records that follow the
  first \<open>(currentPage - 1) * pageSize\<close>, and it is non-empty exactly when
  \<open>currentPage\<close> is at most \<open>totalPages\<close>.
\<close>

theorem totalPages_is_ceiling_window_unclamped:
  assumes "1 \<le> p"
  shows "int (length xs) \<le> totalPages xs p * int p \<and>
         (totalPages xs p - 1) * int p < int (length xs) \<and>
         (xs \<noteq> [] \<longrightarrow>
            totalPages xs p = max 1 \<lceil>rat_of_nat (length xs) / rat_of_nat p\<rceil>) \<and>
         (xs = [] \<longrightarrow> totalPages xs p = 0) \<and>
         (1 \<le> c \<longrightarrow> paginatedData xs c p = take p (drop (nat (c - 1) * p) xs)) \<and>
         (1 \<le> c \<longrightarrow> (paginatedData xs c p \<noteq> [] \<longleftrightarrow> c \<le> totalPages xs p))"
proof -
  have pos: "xs \<noteq> [] \<Longrightarrow> 1 \<le> totalPages xs p"
    using page_le_totalPages_iff[OF assms, of 1 xs] by simp
  have A: "xs \<noteq> [] \<longrightarrow> totalPages xs p = max 1 \<lceil>rat_of_nat (length xs) / rat_of_nat p\<rceil>"
    using pos by (auto simp: totalPages_def)
  have B: "xs = [] \<longrightarrow> totalPages xs p = 0" by (simp add: totalPages_def)
  show ?thesis
    using ceiling_bounds[OF assms, of xs] A B paginatedData_positive[of c xs p]
      paginatedData_nonempty_iff[OF assms, of c xs]
    by blast
qed

theorem totalPages_is_ceiling_window_unclamped_witness:
  "totalPages [5, 6, 7 :: nat] 2 = 2 \<and> paginatedData [5, 6, 7 :: nat] 2 2 = [7] \<and>
   paginatedData [5, 6, 7 :: nat] 3 2 = [] \<and> totalPages ([]::nat list) 2 = 0"
  using totalPages_is_ceiling_window_unclamped[of 2 "[5, 6, 7 :: nat]" 2]
    totalPages_is_ceiling_window_unclamped[of 2 "[5, 6, 7 :: nat]" 3]
    totalPages_is_ceiling_window_unclamped[of 2 "[]::nat list" 1]
  by (simp add: totalPages_def)

section \<open>The status of a version on the EOL page\<close>

text \<open>
  C10: a version whose \<open>eol\<close> is a string and whose \<open>daysRemaining\<close> is 0 (its end of life
  falls on the current day) gets the status \<open>Active\<close>, because each threshold test first
  requires \<open>daysRemaining\<close> to be truthy, and 0 is not.
\<close>

theorem eol_today_is_Active:
  assumes "eol version = JStr s"
      and "differenceInDays h (Date_parse h s) (Some (Date_now h)) = Num 0"
  shows "daysRemaining (flatten_version h nm version) = Num 0 \<and>
         (\<forall>n. \<not> truthy_and_below (daysRemaining_of h version) n) \<and>
         status_of h version = ''Active'' \<and>
         status (flatten_version h nm version) = ''Active''"
proof -
  have d: "daysRemaining_of h version = Some (Num 0)"
    using assms by (simp add: daysRemaining_of_def eolDate_of_def)
  have t: "\<not> truthy_and_below (daysRemaining_of h version) n" for n
    by (simp add: d truthy_and_below_def)
  have s: "status_of h version = ''Active''"
    by (simp add: status_of_def Let_def t)
  show ?thesis using d t s by (simp add: flatten_version_def)
qed

theorem eol_today_is_Active_witness:
  "eol example_version = JStr ''2024-01-01'' \<and>
   differenceInDays (browser 0 1704070800000)
     (Date_parse (browser 0 1704070800000) ''2024-01-01'')
     (Some (Date_now (browser 0 1704070800000))) = Num 0 \<and>
   status (flatten_version (browser 0 1704070800000) ''ubuntu'' example_version) = ''Active''"
proof -
  have e: "eol example_version = JStr ''2024-01-01''"
    by (simp add: example_version_def)
  have d: "differenceInDays (browser 0 1704070800000)
     (Date_parse (browser 0 1704070800000) ''2024-01-01'')
     (Some (Date_now (browser 0 1704070800000))) = Num 0"
    by code_simp
  show ?thesis using eol_today_is_Active[OF e d, of "''ubuntu''"] e d by simp
qed

section \<open>Properties of the edge proxy\<close>












section \<open>Lists produced by sorting and slicing\<close>

lemma set_insert_by: "set (insert_by cmp x ys) = insert x (set ys)"
  by (induction ys) auto

lemma set_foldl_insert_by:
  "set (foldl (\<lambda>acc x. insert_by cmp x acc) acc xs) = set acc \<union> set xs"
  by (induction xs arbitrary: acc) (auto simp: set_insert_by)

lemma set_Array_sort: "set (Array_sort cmp xs) = set xs"
  by (simp add: Array_sort_def set_foldl_insert_by)

lemma length_insert_by: "length (insert_by cmp x ys) = Suc (length ys)"
  by (induction ys) auto

lemma length_Array_sort: "length (Array_sort cmp xs) = length xs"
proof -
  have "length (foldl (\<lambda>acc x. insert_by cmp x acc) acc xs) = length acc + length xs" for acc
    by (induction xs arbitrary: acc) (auto simp: length_insert_by)
  then show ?thesis by (simp add: Array_sort_def)
qed

text \<open>
  The sort puts the list in order whenever the comparator is an order: if \<open>a\<close> before
  \<open>b\<close> excludes \<open>b\<close> before \<open>a\<close>, and not being before is transitive, then no element
  of the result is before an earlier one.
\<close>

lemma insert_by_sorted:
  assumes asym: "\<And>a b. num_lt (cmp a b) (Num 0) \<Longrightarrow> \<not> num_lt (cmp b a) (Num 0)"
      and trans: "\<And>a b c. \<not> num_lt (cmp b a) (Num 0) \<Longrightarrow> \<not> num_lt (cmp c b) (Num 0)
                    \<Longrightarrow> \<not> num_lt (cmp c a) (Num 0)"
      and "sorted_wrt (\<lambda>a b. \<not> num_lt (cmp b a) (Num 0)) ys"
  shows "sorted_wrt (\<lambda>a b. \<not> num_lt (cmp b a) (Num 0)) (insert_by cmp x ys)"
  using assms(3)
proof (induction ys)
  case Nil
  then show ?case by simp
next
  case (Cons y ys)
  show ?case
  proof (cases "num_lt (cmp x y) (Num 0)")
    case True
    have "\<not> num_lt (cmp y x) (Num 0)" using asym[OF True] .
    moreover have "\<not> num_lt (cmp z x) (Num 0)" if "z \<in> set ys" for z
      using trans[of y x z] asym[OF True] Cons.prems that by auto
    ultimately show ?thesis using True Cons.prems by auto
  next
    case False
    then show ?thesis using Cons by (auto simp: set_insert_by)
  qed
qed

lemma Array_sort_sorted:
  assumes asym: "\<And>a b. num_lt (cmp a b) (Num 0) \<Longrightarrow> \<not> num_lt (cmp b a) (Num 0)"
      and trans: "\<And>a b c. \<not> num_lt (cmp b a) (Num 0) \<Longrightarrow> \<not> num_lt (cmp c b) (Num 0)
                    \<Longrightarrow> \<not> num_lt (cmp c a) (Num 0)"
  shows "sorted_wrt (\<lambda>a b. \<not> num_lt (cmp b a) (Num 0)) (Array_sort cmp xs)"
proof -
  have "sorted_wrt (\<lambda>a b. \<not> num_lt (cmp b a) (Num 0))
          (foldl (\<lambda>acc x. insert_by cmp x acc) acc xs)"
    if "sorted_wrt (\<lambda>a b. \<not> num_lt (cmp b a) (Num 0)) acc" for acc
    using that
  proof (induction xs arbitrary: acc)
    case Nil
    then show ?case by simp
  next
    case (Cons x xs)
    have "sorted_wrt (\<lambda>a b. \<not> num_lt (cmp b a) (Num 0)) (insert_by cmp x acc)"
      using asym trans Cons.prems by (rule insert_by_sorted)
    then show ?case using Cons.IH by simp
  qed
  from this[of "[]"] show ?thesis by (simp add: Array_sort_def)
qed

lemma set_js_slice: "set (js_slice a b xs) \<subseteq> set xs"
proof -
  have "set (take n (drop m xs)) \<subseteq> set xs" for n m
    by (meson set_take_subset set_drop_subset subset_trans)
  then show ?thesis by (simp add: js_slice_def Let_def)
qed

lemma split_on_nonempty: "split_on c s \<noteq> []"
  by (induction s) (auto split: list.splits)

lemma elem_map_0: "xs \<noteq> [] \<Longrightarrow> elem (map f xs) 0 = f (hd xs)"
  by (cases xs) (simp_all add: elem_def)

section \<open>Records before 2015 on the Web3 page\<close>

text \<open>
  C9: on the Web3 page, under every time filter including \<open>'all'\<close>, a record whose date
  string has a leading component (the text before the first \<open>-\<close>) that \<open>Number\<close> reads as
  a number below 2015 is in none of the lists derived from the feed: not in the
  time-filtered list that feeds the chart, not in the fully filtered list that feeds the
  statistics cards, and not in the sorted list or the page shown in the table.
\<close>

theorem before_2015_excluded:
  assumes "date exploit = Some s"
      and "num_lt (js_Number h (hd (split_on CHR ''-'' s))) (Num 2015)"
  shows "exploit \<notin> set (getFilteredData h tf xs) \<and>
         exploit \<notin> set (filteredExploits h st) \<and>
         exploit \<notin> set (projectFilteredExploits h st) \<and>
         exploit \<notin> set (sortedExploits h st) \<and>
         exploit \<notin> set (paginatedExploits h st)"
proof -
  have "num_lt (elem (map (js_Number h) (split_on CHR ''-'' s)) 0) (Num 2015)"
    using assms(2) by (simp add: elem_map_0 split_on_nonempty)
  then have out: "\<not> inTimeRange h start exploit" for start
    using assms(1) by (simp add: inTimeRange_def)
  have a: "exploit \<notin> set (getFilteredData h tf' xs')" for tf' xs'
    using out by (simp add: getFilteredData_def)
  then have b: "exploit \<notin> set (filteredExploits h st)"
    by (simp add: filteredExploits_def)
  then have c: "exploit \<notin> set (projectFilteredExploits h st)"
    by (simp add: projectFilteredExploits_def categoryFilteredExploits_def
        typeFilteredExploits_def searchFilteredExploits_def)
  then have d: "exploit \<notin> set (sortedExploits h st)"
    by (simp add: sortedExploits_def set_Array_sort)
  then have e: "exploit \<notin> set (paginatedExploits h st)"
    using set_js_slice by (fastforce simp: paginatedExploits_def paginatedData_def)
  show ?thesis using a b c d e by blast
qed

theorem before_2015_excluded_witness:
  "date (example_exploit ''2014-06-01'' (Some 10)) = Some ''2014-06-01'' \<and>
   num_lt (js_Number (browser 0 1704070800000) (hd (split_on CHR ''-'' ''2014-06-01''))) (Num 2015) \<and>
   example_exploit ''2014-06-01'' (Some 10) \<notin>
     set (filteredExploits (browser 0 1704070800000)
            (example_web3 [example_exploit ''2014-06-01'' (Some 10),
                           example_exploit ''2020-06-01'' (Some 20)]))"
proof -
  have d: "date (example_exploit ''2014-06-01'' (Some 10)) = Some ''2014-06-01''"
    by (simp add: example_exploit_def)
  have n: "num_lt (js_Number (browser 0 1704070800000) (hd (split_on CHR ''-'' ''2014-06-01'')))
             (Num 2015)"
    by code_simp
  show ?thesis using before_2015_excluded[OF d n] d n by blast
qed

section \<open>The page after a change of filter or sort\<close>

text \<open>
  C3, as the spec states it, fails: on the EOL page, on page 2 of a feed of 21 versions, a
  click on the header of the status column changes the sort state and leaves
  \<open>currentPage\<close> at 2.
\<close>

theorem sort_change_keeps_page_counterexample:
  "currentPage (eol_step (browser 0 1704070800000) example_eol (PageClick Next)) = 2 \<and>
   sortConfig (eol_step (browser 0 1704070800000)
                 (eol_step (browser 0 1704070800000) example_eol (PageClick Next))
                 (SortChange K_status))
     \<noteq> sortConfig (eol_step (browser 0 1704070800000) example_eol (PageClick Next)) \<and>
   currentPage (eol_step (browser 0 1704070800000)
                  (eol_step (browser 0 1704070800000) example_eol (PageClick Next))
                  (SortChange K_status)) = 2"
  by code_simp

lemma eol_filter_change:
  "searchQuery (eol_step h st e) \<noteq> searchQuery st \<or>
   statusFilter (eol_step h st e) \<noteq> statusFilter st \<or>
   softwareFilter (eol_step h st e) \<noteq> softwareFilter st
   \<Longrightarrow> currentPage (eol_step h st e) = 1"
  by (auto simp: eol_step_def Let_def split: if_splits)

lemma eol_sort_change:
  "currentPage (eol_step h st (SortChange k)) = currentPage st"
  by (simp add: eol_step_def Let_def)

lemma leak_filter_change:
  "leak_filters_changed st (leak_step h st e) \<Longrightarrow> currentPage (leak_step h st e) = 1"
  by (auto simp: leak_step_def leak_filters_changed_def Let_def split: if_splits)

lemma leak_sort_change:
  "currentPage (leak_step h st (SortChange k)) = currentPage st"
  by (simp add: leak_step_def leak_filters_changed_def Let_def)

lemma web3_change:
  assumes "searchQuery (web3_step h st e) \<noteq> searchQuery st \<or>
   typeFilter (web3_step h st e) \<noteq> typeFilter st \<or>
   categoryFilter (web3_step h st e) \<noteq> categoryFilter st \<or>
   sortConfig (web3_step h st e) \<noteq> sortConfig st"
  shows "currentPage (web3_step h st e) = 1"
proof (cases e)
  case (SetFilter f)
  then show ?thesis using assms by (cases f) auto
qed (use assms in auto)

text \<open>
  C3, amended: on the EOL and data-leak pages, after every transition that changes a
  filter (EOL: the search text, the status or the software; data leaks: the search text,
  the data type, the start date or the end date) \<open>currentPage\<close> is 1, and a change of the
  sort state leaves \<open>currentPage\<close> as it was. On the Web3 page, after every transition
  that changes the search text, the type, the category or the sort state, \<open>currentPage\<close>
  is 1.
\<close>

theorem page_reset:
  "(searchQuery (eol_step h st e) \<noteq> searchQuery st \<or>
    statusFilter (eol_step h st e) \<noteq> statusFilter st \<or>
    softwareFilter (eol_step h st e) \<noteq> softwareFilter st
      \<longrightarrow> currentPage (eol_step h st e) = 1) \<and>
   currentPage (eol_step h st (SortChange k)) = currentPage st \<and>
   (searchQuery (leak_step h ls le) \<noteq> searchQuery ls \<or>
    dataTypeFilter (leak_step h ls le) \<noteq> dataTypeFilter ls \<or>
    startDate (leak_step h ls le) \<noteq> startDate ls \<or>
    endDate (leak_step h ls le) \<noteq> endDate ls
      \<longrightarrow> currentPage (leak_step h ls le) = 1) \<and>
   currentPage (leak_step h ls (SortChange lk)) = currentPage ls \<and>
   (searchQuery (web3_step h ws we) \<noteq> searchQuery ws \<or>
    typeFilter (web3_step h ws we) \<noteq> typeFilter ws \<or>
    categoryFilter (web3_step h ws we) \<noteq> categoryFilter ws \<or>
    sortConfig (web3_step h ws we) \<noteq> sortConfig ws
      \<longrightarrow> currentPage (web3_step h ws we) = 1)"
  using eol_filter_change[of h st e] eol_sort_change[of h st k]
    leak_filter_change[of ls h le] leak_sort_change[of h ls lk] web3_change[of h ws we]
  unfolding leak_filters_changed_def by blast


theorem page_reset_witness:
  "currentPage (eol_step (browser 0 1704070800000)
                  (eol_step (browser 0 1704070800000) example_eol (PageClick Next))
                  (SetSearchQuery ''ubu'')) = 1 \<and>
   currentPage (leak_step (browser 0 1704070800000)
                  ((example_leaks [example_leak (Some ''2023-05-01'')])\<lparr>currentPage := 3\<rparr>)
                  (SetFilter (SetStartDate ''2024-01-01''))) = 1 \<and>
   currentPage (web3_step (browser 0 1704070800000)
                  ((example_web3 [example_exploit ''2023-12-01'' (Some 100)])\<lparr>currentPage := 2\<rparr>)
                  (SortChange E_funds_lost)) = 1"
proof -
  let ?h = "browser 0 1704070800000"
  let ?st = "eol_step ?h example_eol (PageClick Next)"
  let ?ls = "(example_leaks [example_leak (Some ''2023-05-01'')])\<lparr>currentPage := 3\<rparr>"
  let ?ws = "(example_web3 [example_exploit ''2023-12-01'' (Some 100)])\<lparr>currentPage := 2\<rparr>"
  note T = page_reset[where h = ?h and st = ?st and e = "SetSearchQuery ''ubu''"
      and ls = ?ls and le = "SetFilter (SetStartDate ''2024-01-01'')"
      and ws = ?ws and we = "SortChange E_funds_lost"]
  have a: "searchQuery (eol_step ?h ?st (SetSearchQuery ''ubu'')) \<noteq> searchQuery ?st"
    by code_simp
  have b: "startDate (leak_step ?h ?ls (SetFilter (SetStartDate ''2024-01-01''))) \<noteq> startDate ?ls"
    by code_simp
  have c: "sortConfig (web3_step ?h ?ws (SortChange E_funds_lost)) \<noteq> sortConfig ?ws"
    by code_simp
  have 1: "currentPage (eol_step ?h ?st (SetSearchQuery ''ubu'')) = 1"
    using T a by blast
  have 2: "currentPage (leak_step ?h ?ls (SetFilter (SetStartDate ''2024-01-01''))) = 1"
    using T b by blast
  have 3: "currentPage (web3_step ?h ?ws (SortChange E_funds_lost)) = 1"
    using T c by blast
  show ?thesis by (intro conjI 1 2 3)
qed

section \<open>The scope of the loss statistics\<close>

lemma getFilteredData_filter:
  "getFilteredData h tf xs = filter (inTimeRange h (getStartDate h tf)) xs"
  by (simp add: getFilteredData_def)

lemma projectFilteredExploits_filter:
  "projectFilteredExploits h st =
     filter (\<lambda>e. inTimeRange h (getStartDate h (timeFilter st)) e \<and>
                 matchesQuery h (searchQuery st) e \<and> matchesType (typeFilter st) e \<and>
                 matchesCategory (categoryFilter st) e \<and> matchesProject (projectFilter st) e)
       (exploits st)"
  by (simp add: projectFilteredExploits_def categoryFilteredExploits_def
      typeFilteredExploits_def searchFilteredExploits_def filteredExploits_def
      getFilteredData_filter conj_ac)


lemma filteredExploits_time_only:
  "filteredExploits h (st\<lparr>searchQuery := q, typeFilter := ty, categoryFilter := c,
                           currentPage := page\<rparr>)
     = getFilteredData h (timeFilter st) (exploits st)"
  by (simp add: filteredExploits_def)

text \<open>
  C6, as the spec states it, fails for the sums of the chart and for the card of exposed
  records. With the type filter set to \<open>Exploit\<close>, the three records that match the filters
  lose 125 in total, and this is the total of the card; the chart is computed from the
  records of the time range, so its series has the month of the record of another type,
  with its 50. On the data-leak page a search text that no leak matches leaves no record,
  while the card of exposed records still shows the 1200 of the feed.
\<close>

theorem month_sums_outside_filters_counterexample:
  "projectFilteredExploits (browser 0 1704070800000)
     ((example_web3 example_feed)\<lparr>typeFilter := ''Exploit''\<rparr>)
     = [example_exploit ''2023-12-01'' (Some 100), example_exploit ''2024-02-20'' None,
        example_exploit ''2024-03-05'' (Some 25)] \<and>
   totalLosses (browser 0 1704070800000)
     ((example_web3 example_feed)\<lparr>typeFilter := ''Exploit''\<rparr>) = 125 \<and>
   lossesOverTimeData (browser 0 1704070800000)
     (filteredExploits (browser 0 1704070800000)
        ((example_web3 example_feed)\<lparr>typeFilter := ''Exploit''\<rparr>))
     = [(''Dec 2023'', 100), (''Jan 2024'', 50), (''Feb 2024'', 0), (''Mar 2024'', 25)] \<and>
   applyFilters (browser 0 1704070800000)
     ((example_leaks [example_leak (Some ''2024-01-01'')])\<lparr>searchQuery := ''bank''\<rparr>) = [] \<and>
   exposedRecords (browser 0 1704070800000)
     ((example_leaks [example_leak (Some ''2024-01-01'')])\<lparr>searchQuery := ''bank''\<rparr>) = 1200"
  by code_simp

text \<open>
  C6, amended: on the Web3 page the total of the losses is the sum, taken from left to
  right in doubles as \<open>reduce\<close> takes it, of \<open>funds_lost ?? 0\<close> over exactly the records of
  the feed that pass all the filters of the state (time range, search text, type,
  category, project), that is over the list before it is sorted and paginated; the
  average is that total divided by the number of those records, or 0 when there is none.
  Neither reads the page size, and setting \<open>currentPage\<close> changes neither; the window of
  any page and page size is drawn from the records summed. The monthly sums of the chart
  are computed from the records that pass the time range, whatever the search text, the
  type, the category and the page; the exposed records of the data-leak page are summed
  over the whole feed, whatever the filters and the page.
\<close>

theorem totalLosses_scope:
  "totalLosses h st =
     foldl (\<lambda>sum exploit. add_double h sum (funds_or_0 exploit)) 0
       (filter (\<lambda>e. inTimeRange h (getStartDate h (timeFilter st)) e \<and>
                    matchesQuery h (searchQuery st) e \<and> matchesType (typeFilter st) e \<and>
                    matchesCategory (categoryFilter st) e \<and> matchesProject (projectFilter st) e)
          (exploits st)) \<and>
   averageLoss h st =
     (if projectFilteredExploits h st = [] then 0
      else div_double h (totalLosses h st) (rat_of_nat (length (projectFilteredExploits h st)))) \<and>
   totalLosses h (st\<lparr>currentPage := page\<rparr>) = totalLosses h st \<and>
   averageLoss h (st\<lparr>currentPage := page\<rparr>) = averageLoss h st \<and>
   set (paginatedData (sortedExploits h st) page n) \<subseteq> set (projectFilteredExploits h st) \<and>
   lossesOverTimeData h
     (filteredExploits h (st\<lparr>searchQuery := q, typeFilter := ty, categoryFilter := c,
                              currentPage := page\<rparr>))
     = lossesOverTimeData h (getFilteredData h (timeFilter st) (exploits st)) \<and>
   exposedRecords h (ls\<lparr>searchQuery := q, dataTypeFilter := ty, startDate := a, endDate := b,
                          currentPage := page\<rparr>)
     = foldl (\<lambda>total leak. add_double h total (leak_count leak)) 0 (dataLeaks ls)"
proof -
  have p: "projectFilteredExploits h (st\<lparr>currentPage := page\<rparr>) = projectFilteredExploits h st"
    by (simp add: projectFilteredExploits_filter)
  have s: "totalLosses h st =
     foldl (\<lambda>sum exploit. add_double h sum (funds_or_0 exploit)) 0
       (filter (\<lambda>e. inTimeRange h (getStartDate h (timeFilter st)) e \<and>
                    matchesQuery h (searchQuery st) e \<and> matchesType (typeFilter st) e \<and>
                    matchesCategory (categoryFilter st) e \<and> matchesProject (projectFilter st) e)
          (exploits st))"
    by (simp only: totalLosses_def projectFilteredExploits_filter)
  have v: "averageLoss h st =
     (if projectFilteredExploits h st = [] then 0
      else div_double h (totalLosses h st) (rat_of_nat (length (projectFilteredExploits h st))))"
    by (simp add: averageLoss_def)
  have t: "totalLosses h (st\<lparr>currentPage := page\<rparr>) = totalLosses h st"
    by (simp add: totalLosses_def p)
  have a: "averageLoss h (st\<lparr>currentPage := page\<rparr>) = averageLoss h st"
    by (simp add: averageLoss_def p t)
  have w: "set (paginatedData (sortedExploits h st) page n) \<subseteq> set (projectFilteredExploits h st)"
    using set_js_slice[of _ _ "sortedExploits h st"]
    by (simp add: paginatedData_def sortedExploits_def set_Array_sort)
  have c: "lossesOverTimeData h
     (filteredExploits h (st\<lparr>searchQuery := q, typeFilter := ty, categoryFilter := c,
                              currentPage := page\<rparr>))
     = lossesOverTimeData h (getFilteredData h (timeFilter st) (exploits st))"
    by (simp only: filteredExploits_time_only)
  have x: "exposedRecords h (ls\<lparr>searchQuery := q, dataTypeFilter := ty, startDate := a,
                                endDate := b, currentPage := page\<rparr>)
     = foldl (\<lambda>total leak. add_double h total (leak_count leak)) 0 (dataLeaks ls)"
    by (simp add: exposedRecords_def)
  show ?thesis by (intro conjI s v t a w c x)
qed

theorem totalLosses_scope_witness:
  "totalLosses (browser 0 1704070800000) ((example_web3 example_feed)\<lparr>typeFilter := ''Exploit''\<rparr>) = 125 \<and>
   totalLosses (browser 0 1704070800000)
     ((example_web3 example_feed)\<lparr>typeFilter := ''Exploit'', currentPage := 7\<rparr>) = 125 \<and>
   averageLoss (browser 0 1704070800000) (example_web3 example_feed) = 175 / 4"
proof -
  let ?h = "browser 0 1704070800000"
  let ?st = "(example_web3 example_feed)\<lparr>typeFilter := ''Exploit''\<rparr>"
  note T = totalLosses_scope[where h = ?h and st = ?st and page = 7]
  have e: "foldl (\<lambda>sum exploit. add_double ?h sum (funds_or_0 exploit)) 0
       (filter (\<lambda>e. inTimeRange ?h (getStartDate ?h (timeFilter ?st)) e \<and>
                    matchesQuery ?h (searchQuery ?st) e \<and> matchesType (typeFilter ?st) e \<and>
                    matchesCategory (categoryFilter ?st) e \<and> matchesProject (projectFilter ?st) e)
          (exploits ?st)) = 125"
    by code_simp
  let ?init = "example_web3 example_feed"
  note T0 = totalLosses_scope[where h = ?h and st = ?init]
  have e0: "foldl (\<lambda>sum exploit. add_double ?h sum (funds_or_0 exploit)) 0
       (filter (\<lambda>e. inTimeRange ?h (getStartDate ?h (timeFilter ?init)) e \<and>
                    matchesQuery ?h (searchQuery ?init) e \<and> matchesType (typeFilter ?init) e \<and>
                    matchesCategory (categoryFilter ?init) e \<and> matchesProject (projectFilter ?init) e)
          (exploits ?init)) = 175"
    by code_simp
  have n: "projectFilteredExploits ?h ?init \<noteq> []"
    "rat_of_nat (length (projectFilteredExploits ?h ?init)) = 4"
    by code_simp+
  have d: "div_double ?h x y = x / y" for x y
    by (simp add: browser_def)
  have 1: "totalLosses ?h ?st = 125"
    by (rule trans[OF T[THEN conjunct1] e])
  have 2: "totalLosses ?h (?st\<lparr>currentPage := 7\<rparr>) = 125"
    by (rule trans[OF T[THEN conjunct2, THEN conjunct2, THEN conjunct1] 1])
  have 0: "totalLosses ?h ?init = 175"
    by (rule trans[OF T0[THEN conjunct1] e0])
  have 3: "averageLoss ?h ?init = 175 / 4"
    by (simp only: T0[THEN conjunct2, THEN conjunct1] n 0 d if_False)
  show ?thesis by (intro conjI 1 2 3)
qed

section \<open>Records without a sort key\<close>

lemma insert_by_pass:
  assumes "\<forall>n\<in>set ns. \<not> num_lt (cmp x n) (Num 0)"
  shows "insert_by cmp x (ns @ vs) = ns @ insert_by cmp x vs"
  using assms by (induction ns) auto

lemma insert_by_stop:
  assumes "\<forall>n\<in>set ns. num_lt (cmp x n) (Num 0)"
  shows "insert_by cmp x (vs @ ns) = insert_by cmp x vs @ ns"
  using assms by (induction vs) (cases ns; auto)+

text \<open>A list whose elements with property \<open>P\<close> all come first.\<close>

lemma split_filter:
  assumes "ys = ns @ vs" "\<forall>x\<in>set ns. P x" "\<forall>x\<in>set vs. \<not> P x"
  shows "ys = filter P ys @ filter (\<lambda>x. \<not> P x) ys"
proof -
  have "filter P ns = ns" "filter P vs = []" "filter (\<lambda>x. \<not> P x) ns = []"
    "filter (\<lambda>x. \<not> P x) vs = vs"
    using assms(2,3) by (auto simp: filter_empty_conv filter_id_conv)
  then show ?thesis using assms(1) by simp
qed

lemma nulls_first:
  assumes n1: "\<And>x y. P x \<Longrightarrow> num_lt (cmp x y) (Num 0)"
      and n2: "\<And>x y. \<not> P x \<Longrightarrow> P y \<Longrightarrow> \<not> num_lt (cmp x y) (Num 0)"
  shows "\<exists>ns vs. Array_sort cmp xs = ns @ vs \<and> (\<forall>x\<in>set ns. P x) \<and> (\<forall>x\<in>set vs. \<not> P x)"
proof -
  have "\<exists>ns vs. foldl (\<lambda>acc x. insert_by cmp x acc) (ns0 @ vs0) xs = ns @ vs \<and>
          (\<forall>x\<in>set ns. P x) \<and> (\<forall>x\<in>set vs. \<not> P x)"
    if "\<forall>x\<in>set ns0. P x" "\<forall>x\<in>set vs0. \<not> P x" for ns0 vs0
    using that
  proof (induction xs arbitrary: ns0 vs0)
    case Nil
    then show ?case by auto
  next
    case (Cons x xs)
    show ?case
    proof (cases "P x")
      case True
      have "insert_by cmp x (ns0 @ vs0) = (x # ns0) @ vs0"
        using n1[OF True] by (cases "ns0 @ vs0") auto
      moreover have "\<forall>y\<in>set (x # ns0). P y" using True Cons.prems(1) by simp
      ultimately show ?thesis using Cons.IH[of "x # ns0" vs0] Cons.prems(2) by simp
    next
      case False
      have "insert_by cmp x (ns0 @ vs0) = ns0 @ insert_by cmp x vs0"
        using n2[OF False] Cons.prems(1) by (intro insert_by_pass) auto
      moreover have "\<forall>y\<in>set (insert_by cmp x vs0). \<not> P y"
        using False Cons.prems(2) by (simp add: set_insert_by)
      ultimately show ?thesis using Cons.IH[of ns0 "insert_by cmp x vs0"] Cons.prems(1) by simp
    qed
  qed
  from this[of "[]" "[]"] show ?thesis by (simp add: Array_sort_def)
qed

lemma nulls_last:
  assumes n1: "\<And>x y. P x \<Longrightarrow> \<not> num_lt (cmp x y) (Num 0)"
      and n2: "\<And>x y. \<not> P x \<Longrightarrow> P y \<Longrightarrow> num_lt (cmp x y) (Num 0)"
  shows "\<exists>vs ns. Array_sort cmp xs = vs @ ns \<and> (\<forall>x\<in>set vs. \<not> P x) \<and> (\<forall>x\<in>set ns. P x)"
proof -
  have "\<exists>vs ns. foldl (\<lambda>acc x. insert_by cmp x acc) (vs0 @ ns0) xs = vs @ ns \<and>
          (\<forall>x\<in>set vs. \<not> P x) \<and> (\<forall>x\<in>set ns. P x)"
    if "\<forall>x\<in>set vs0. \<not> P x" "\<forall>x\<in>set ns0. P x" for ns0 vs0
    using that
  proof (induction xs arbitrary: ns0 vs0)
    case Nil
    then show ?case by auto
  next
    case (Cons x xs)
    show ?case
    proof (cases "P x")
      case True
      have "insert_by cmp x ((vs0 @ ns0) @ []) = (vs0 @ ns0) @ insert_by cmp x []"
        using n1[OF True] by (intro insert_by_pass) auto
      then have "insert_by cmp x (vs0 @ ns0) = vs0 @ (ns0 @ [x])" by simp
      moreover have "\<forall>y\<in>set (ns0 @ [x]). P y" using True Cons.prems(2) by simp
      ultimately show ?thesis using Cons.IH[of vs0 "ns0 @ [x]"] Cons.prems(1) by simp
    next
      case False
      have "insert_by cmp x (vs0 @ ns0) = insert_by cmp x vs0 @ ns0"
        using n2[OF False] Cons.prems(2) by (intro insert_by_stop) auto
      moreover have "\<forall>y\<in>set (insert_by cmp x vs0). \<not> P y"
        using False Cons.prems(1) by (simp add: set_insert_by)
      ultimately show ?thesis using Cons.IH[of "insert_by cmp x vs0" ns0] Cons.prems(2) by simp
    qed
  qed
  from this[of "[]" "[]"] show ?thesis by (simp add: Array_sort_def)
qed


lemma date_value_nullish:
  "(date_value h v = JUndefined \<or> date_value h v = JNull) \<longleftrightarrow> (v = JUndefined \<or> v = JNull)"
  by (cases v) auto

text \<open>
  C1, as the spec states it, fails. On the Web3 page the losses 5, null, 1 sorted ascending
  by \<open>funds_lost\<close> come out as null, 1, 5: the record without a value is first. On the EOL
  page a version whose \<open>eol\<close> string does not parse stays in front of a version with a
  valid date when sorted ascending by \<open>eol\<close>.
\<close>

theorem nulls_first_ascending_counterexample:
  "map funds_lost
     (Array_sort (compareExploits (browser 0 1704070800000) \<lparr>key = E_funds_lost, direction = asc\<rparr>)
        [example_exploit ''2024-01-01'' (Some 5), example_exploit ''2024-01-02'' None,
         example_exploit ''2024-01-03'' (Some 1)])
     = [None, Some 1, Some 5] \<and>
   map eol
     (Array_sort (compareSoftware (browser 0 1704070800000) \<lparr>key = K_eol, direction = asc\<rparr>)
        [flatten_version (browser 0 1704070800000) ''ubuntu'' (example_version\<lparr>eol := JStr ''soon''\<rparr>),
         flatten_version (browser 0 1704070800000) ''ubuntu'' example_version])
     = [JStr ''soon'', JStr ''2024-01-01'']"
  by code_simp

text \<open>
  C1, amended: for every record list and every sort key of the Web3 and EOL pages, the
  records whose key value is null or undefined are placed by the direction: they come
  after every record with a value when the direction is \<open>desc\<close>, and before every record
  with a value when it is \<open>asc\<close> (the comparator orders a missing value below every
  value).
\<close>

theorem null_keys_follow_direction:
  fixes h :: host and cfg :: "exploit_key sort_config" and xs :: "ExploitDetail list"
    and cfg' :: "eol_key sort_config" and vs :: "FlattenedSoftwareVersion list"
  defines "ys \<equiv> Array_sort (compareExploits h cfg) xs"
      and "isnull \<equiv> \<lambda>a. exploit_field a (key cfg) = VNull"
      and "zs \<equiv> Array_sort (compareSoftware h cfg') vs"
      and "isnull' \<equiv> \<lambda>a. eol_field a (key cfg') = JUndefined \<or> eol_field a (key cfg') = JNull"
  shows "(direction cfg = asc \<longrightarrow> ys = filter isnull ys @ filter (\<lambda>a. \<not> isnull a) ys) \<and>
         (direction cfg = desc \<longrightarrow> ys = filter (\<lambda>a. \<not> isnull a) ys @ filter isnull ys) \<and>
         (direction cfg' = asc \<longrightarrow> zs = filter isnull' zs @ filter (\<lambda>a. \<not> isnull' a) zs) \<and>
         (direction cfg' = desc \<longrightarrow> zs = filter (\<lambda>a. \<not> isnull' a) zs @ filter isnull' zs)"
proof -
  have w1: "isnull x \<Longrightarrow> compareExploits h cfg x y = (if direction cfg = asc then Num (- 1) else Num 1)"
    for x y by (simp add: compareExploits_def isnull_def Let_def)
  have w2: "\<not> isnull x \<Longrightarrow> isnull y \<Longrightarrow>
      compareExploits h cfg x y = (if direction cfg = asc then Num 1 else Num (- 1))"
    for x y by (simp add: compareExploits_def isnull_def Let_def)
  have e1: "isnull' x \<Longrightarrow> compareSoftware h cfg' x y = (if direction cfg' = asc then Num (- 1) else Num 1)"
    for x y
    using date_value_nullish[of h "eol_field x (key cfg')"]
    by (auto simp: compareSoftware_def isnull'_def Let_def)
  have e2: "\<not> isnull' x \<Longrightarrow> isnull' y \<Longrightarrow>
      compareSoftware h cfg' x y = (if direction cfg' = asc then Num 1 else Num (- 1))"
    for x y
    using date_value_nullish[of h "eol_field x (key cfg')"]
      date_value_nullish[of h "eol_field y (key cfg')"]
    by (auto simp: compareSoftware_def isnull'_def Let_def)
  have A: "ys = filter isnull ys @ filter (\<lambda>a. \<not> isnull a) ys" if "direction cfg = asc"
  proof -
    have n1: "\<And>x y. isnull x \<Longrightarrow> num_lt (compareExploits h cfg x y) (Num 0)"
      by (simp add: w1 that)
    have n2: "\<And>x y. \<not> isnull x \<Longrightarrow> isnull y \<Longrightarrow> \<not> num_lt (compareExploits h cfg x y) (Num 0)"
      by (simp add: w2 that)
    from nulls_first[of isnull "compareExploits h cfg" xs, OF n1 n2]
    obtain ns vs where "ys = ns @ vs" "\<forall>x\<in>set ns. isnull x" "\<forall>x\<in>set vs. \<not> isnull x"
      unfolding ys_def by blast
    then show ?thesis by (rule split_filter)
  qed
  have B: "ys = filter (\<lambda>a. \<not> isnull a) ys @ filter isnull ys" if "direction cfg = desc"
  proof -
    have n1: "\<And>x y. isnull x \<Longrightarrow> \<not> num_lt (compareExploits h cfg x y) (Num 0)"
      by (simp add: w1 that)
    have n2: "\<And>x y. \<not> isnull x \<Longrightarrow> isnull y \<Longrightarrow> num_lt (compareExploits h cfg x y) (Num 0)"
      by (simp add: w2 that)
    from nulls_last[of isnull "compareExploits h cfg" xs, OF n1 n2]
    obtain vs ns where "ys = vs @ ns" "\<forall>x\<in>set vs. \<not> isnull x" "\<forall>x\<in>set ns. isnull x"
      unfolding ys_def by blast
    then show ?thesis using split_filter[of ys vs ns "\<lambda>a. \<not> isnull a"] by simp
  qed
  have C: "zs = filter isnull' zs @ filter (\<lambda>a. \<not> isnull' a) zs" if "direction cfg' = asc"
  proof -
    have n1: "\<And>x y. isnull' x \<Longrightarrow> num_lt (compareSoftware h cfg' x y) (Num 0)"
      by (simp add: e1 that)
    have n2: "\<And>x y. \<not> isnull' x \<Longrightarrow> isnull' y \<Longrightarrow> \<not> num_lt (compareSoftware h cfg' x y) (Num 0)"
      by (simp add: e2 that)
    from nulls_first[of isnull' "compareSoftware h cfg'" vs, OF n1 n2]
    obtain ns ws where "zs = ns @ ws" "\<forall>x\<in>set ns. isnull' x" "\<forall>x\<in>set ws. \<not> isnull' x"
      unfolding zs_def by blast
    then show ?thesis by (rule split_filter)
  qed
  have D: "zs = filter (\<lambda>a. \<not> isnull' a) zs @ filter isnull' zs" if "direction cfg' = desc"
  proof -
    have n1: "\<And>x y. isnull' x \<Longrightarrow> \<not> num_lt (compareSoftware h cfg' x y) (Num 0)"
      by (simp add: e1 that)
    have n2: "\<And>x y. \<not> isnull' x \<Longrightarrow> isnull' y \<Longrightarrow> num_lt (compareSoftware h cfg' x y) (Num 0)"
      by (simp add: e2 that)
    from nulls_last[of isnull' "compareSoftware h cfg'" vs, OF n1 n2]
    obtain ws ns where "zs = ws @ ns" "\<forall>x\<in>set ws. \<not> isnull' x" "\<forall>x\<in>set ns. isnull' x"
      unfolding zs_def by blast
    then show ?thesis using split_filter[of zs ws ns "\<lambda>a. \<not> isnull' a"] by simp
  qed
  show ?thesis using A B C D by blast
qed

theorem null_keys_follow_direction_witness:
  "map funds_lost
     (Array_sort (compareExploits (browser 0 1704070800000) \<lparr>key = E_funds_lost, direction = desc\<rparr>)
        [example_exploit ''2024-01-01'' (Some 5), example_exploit ''2024-01-02'' None,
         example_exploit ''2024-01-03'' (Some 1)])
     = [Some 5, Some 1, None] \<and>
   map releaseDate
     (Array_sort (compareSoftware (browser 0 1704070800000) \<lparr>key = K_releaseDate, direction = asc\<rparr>)
        [flatten_version (browser 0 1704070800000) ''ubuntu'' example_version,
         flatten_version (browser 0 1704070800000) ''ubuntu'' (example_version\<lparr>releaseDate := JNull\<rparr>)])
     = [JNull, JStr ''2022-04-21'']"
proof -
  let ?h = "browser 0 1704070800000"
  let ?cfg = "\<lparr>key = E_funds_lost, direction = desc\<rparr>"
  let ?xs = "[example_exploit ''2024-01-01'' (Some 5), example_exploit ''2024-01-02'' None,
         example_exploit ''2024-01-03'' (Some 1)]"
  let ?ys = "Array_sort (compareExploits ?h ?cfg) ?xs"
  let ?cfg' = "\<lparr>key = K_releaseDate, direction = asc\<rparr>"
  let ?vs = "[flatten_version ?h ''ubuntu'' example_version,
         flatten_version ?h ''ubuntu'' (example_version\<lparr>releaseDate := JNull\<rparr>)]"
  let ?zs = "Array_sort (compareSoftware ?h ?cfg') ?vs"
  note T = null_keys_follow_direction[where h = ?h and cfg = ?cfg and xs = ?xs
      and cfg' = ?cfg' and vs = ?vs]
  have d: "direction ?cfg = desc" by simp
  have a: "direction ?cfg' = asc" by simp
  have s: "?ys = filter (\<lambda>a. \<not> exploit_field a (key ?cfg) = VNull) ?ys
               @ filter (\<lambda>a. exploit_field a (key ?cfg) = VNull) ?ys"
    by (rule T[THEN conjunct2, THEN conjunct1, THEN mp, OF d])
  have e: "map funds_lost (filter (\<lambda>a. \<not> exploit_field a (key ?cfg) = VNull) ?ys
               @ filter (\<lambda>a. exploit_field a (key ?cfg) = VNull) ?ys) = [Some 5, Some 1, None]"
    by code_simp
  have s': "?zs = filter (\<lambda>a. eol_field a (key ?cfg') = JUndefined \<or> eol_field a (key ?cfg') = JNull) ?zs
               @ filter (\<lambda>a. \<not> (eol_field a (key ?cfg') = JUndefined \<or> eol_field a (key ?cfg') = JNull)) ?zs"
    by (rule T[THEN conjunct2, THEN conjunct2, THEN conjunct1, THEN mp, OF a])
  have e': "map releaseDate
       (filter (\<lambda>a. eol_field a (key ?cfg') = JUndefined \<or> eol_field a (key ?cfg') = JNull) ?zs
        @ filter (\<lambda>a. \<not> (eol_field a (key ?cfg') = JUndefined \<or> eol_field a (key ?cfg') = JNull)) ?zs)
       = [JNull, JStr ''2022-04-21'']"
    by code_simp
  have 1: "map funds_lost ?ys = [Some 5, Some 1, None]" using s e by simp
  have 2: "map releaseDate ?zs = [JNull, JStr ''2022-04-21'']" using s' e' by simp
  show ?thesis by (intro conjI 1 2)
qed

section \<open>The dates that the filters and the sort compare\<close>







section \<open>Records without a usable date\<close>

text \<open>
  C5, as the spec states it, fails on the Web3 page: under the time filter \<open>'all'\<close>, where no
  bound is active, a record whose date does not parse and a record without a date are
  still left out, while a dated record is kept. On the data-leak page it fails for a
  breach date that is null, which \<open>new Date\<close> reads as the epoch: the record passes an
  active end bound. And a leak without a breach date, which is kept when no bound is set
  and is a row of the first page, makes \<open>formatDate\<close> throw when the row is rendered.
\<close>

theorem unparsable_date_excluded_under_all_counterexample:
  "getFilteredData (browser 0 1704070800000) T_all
     [example_exploit ''not a date'' (Some 1)] = [] \<and>
   getFilteredData (browser 0 1704070800000) T_all
     [(example_exploit ''2024-01-01'' (Some 1))\<lparr>date := None\<rparr>] = [] \<and>
   getFilteredData (browser 0 1704070800000) T_all
     [example_exploit ''2024-01-01'' (Some 1)] = [example_exploit ''2024-01-01'' (Some 1)] \<and>
   toEndDate (browser 0 1704070800000) ''2024-01-01'' [(example_leak None)\<lparr>breach_date := JNull\<rparr>]
     = [(example_leak None)\<lparr>breach_date := JNull\<rparr>] \<and>
   paginatedData (applyFilters (browser 0 1704070800000) (example_leaks [example_leak None]))
     1 itemsPerPage_leaks = [example_leak None] \<and>
   formatDate (browser 0 1704070800000) (breach_date (example_leak None)) = Inl TypeError"
  by code_simp

text \<open>
  C5, amended: on the data-leak page a record whose breach date is absent, or is a string
  that does not parse, is excluded whenever a start or an end date is set, and is kept or
  dropped by the other filters alone when neither is set; rendering a breach date that is
  a string, whether it parses or not, raises no exception. On the Web3 page a record
  whose date is missing, empty or does not parse is excluded under every time filter,
  \<open>'all'\<close> included.
\<close>

theorem records_without_a_date:
  fixes h :: host and leak :: DataLeak and st :: leak_state and e :: ExploitDetail
  shows
  "(breach_date leak = JUndefined \<or> (\<exists>s. breach_date leak = JStr s \<and> Date_parse h s = None)
      \<longrightarrow>
      (startDate st \<noteq> [] \<or> endDate st \<noteq> [] \<longrightarrow> leak \<notin> set (applyFilters h st)) \<and>
      (startDate st = [] \<and> endDate st = [] \<longrightarrow>
         (leak \<in> set (applyFilters h st) \<longleftrightarrow>
          leak \<in> set (dataTypeLeaks h (dataTypeFilter st)
                        (searchLeaks h (searchQuery st) (dataLeaks st)))))) \<and>
   (\<exists>text. formatDate h (JStr d) = Inr text) \<and>
   (date e = None \<or> date e = Some [] \<or> (\<exists>s. date e = Some s \<and> exploitDate h s = None)
      \<longrightarrow> e \<notin> set (getFilteredData h tf xs))"
proof -
  have N: "breachDate h leak = None"
    if "breach_date leak = JUndefined \<or> (\<exists>s. breach_date leak = JStr s \<and> Date_parse h s = None)"
    using that by (auto simp: breachDate_def)
  have A: "leak \<notin> set (applyFilters h st)"
    if "breachDate h leak = None" "startDate st \<noteq> [] \<or> endDate st \<noteq> []"
    using that by (auto simp: applyFilters_def set_Array_sort fromStartDate_def toEndDate_def)
  have B: "leak \<in> set (applyFilters h st) \<longleftrightarrow>
          leak \<in> set (dataTypeLeaks h (dataTypeFilter st)
                        (searchLeaks h (searchQuery st) (dataLeaks st)))"
    if "startDate st = [] \<and> endDate st = []"
    using that by (simp add: applyFilters_def set_Array_sort fromStartDate_def toEndDate_def)
  have F: "\<exists>text. formatDate h (JStr d) = Inr text"
    by (simp add: formatDate_def split: option.split list.split)
  have C: "e \<notin> set (getFilteredData h tf xs)"
    if "date e = None \<or> date e = Some [] \<or> (\<exists>s. date e = Some s \<and> exploitDate h s = None)"
    using that by (auto simp: getFilteredData_def inTimeRange_def)
  show ?thesis using N A B C F by blast
qed

theorem records_without_a_date_witness:
  "example_leak None \<notin>
     set (applyFilters (browser 0 1704070800000)
            ((example_leaks [example_leak None])\<lparr>startDate := ''2024-01-01''\<rparr>)) \<and>
   example_leak (Some ''not a date'') \<notin>
     set (applyFilters (browser 0 1704070800000)
            ((example_leaks [example_leak (Some ''not a date'')])\<lparr>endDate := ''2024-01-01''\<rparr>)) \<and>
   example_leak None \<in>
     set (applyFilters (browser 0 1704070800000) (example_leaks [example_leak None])) \<and>
   example_exploit ''not a date'' (Some 1) \<notin>
     set (getFilteredData (browser 0 1704070800000) T_all [example_exploit ''not a date'' (Some 1)])"
proof -
  let ?h = "browser 0 1704070800000"
  let ?l = "example_leak None"
  let ?u = "example_leak (Some ''not a date'')"
  let ?st1 = "(example_leaks [?l])\<lparr>startDate := ''2024-01-01''\<rparr>"
  let ?st2 = "(example_leaks [?u])\<lparr>endDate := ''2024-01-01''\<rparr>"
  let ?st0 = "example_leaks [?l]"
  let ?e = "example_exploit ''not a date'' (Some 1)"
  note T1 = records_without_a_date[where h = ?h and leak = ?l and st = ?st1 and e = ?e
      and tf = T_all and xs = "[?e]"]
  note T2 = records_without_a_date[where h = ?h and leak = ?u and st = ?st2]
  note T0 = records_without_a_date[where h = ?h and leak = ?l and st = ?st0]
  have m: "breach_date ?l = JUndefined \<or>
           (\<exists>s. breach_date ?l = JStr s \<and> Date_parse ?h s = None)"
    by (simp add: example_leak_def)
  have u: "breach_date ?u = JUndefined \<or>
           (\<exists>s. breach_date ?u = JStr s \<and> Date_parse ?h s = None)"
  proof -
    have "breach_date ?u = JStr ''not a date''" by (simp add: example_leak_def)
    moreover have "Date_parse ?h ''not a date'' = None" by code_simp
    ultimately show ?thesis by blast
  qed
  have s1: "startDate ?st1 \<noteq> [] \<or> endDate ?st1 \<noteq> []" by simp
  have s2: "startDate ?st2 \<noteq> [] \<or> endDate ?st2 \<noteq> []" by simp
  have s0: "startDate ?st0 = [] \<and> endDate ?st0 = []" by (simp add: example_leaks_def)
  have k: "?l \<in> set (dataTypeLeaks ?h (dataTypeFilter ?st0)
                        (searchLeaks ?h (searchQuery ?st0) (dataLeaks ?st0)))"
    by (simp add: example_leaks_def dataTypeLeaks_def searchLeaks_def)
  have d: "date ?e = None \<or> date ?e = Some [] \<or>
           (\<exists>s. date ?e = Some s \<and> exploitDate ?h s = None)"
  proof -
    have "date ?e = Some ''not a date''" by (simp add: example_exploit_def)
    moreover have "exploitDate ?h ''not a date'' = None" by code_simp
    ultimately show ?thesis by blast
  qed
  have 1: "?l \<notin> set (applyFilters ?h ?st1)"
    using T1[THEN conjunct1, THEN mp, OF m] s1 by blast
  have 2: "?u \<notin> set (applyFilters ?h ?st2)"
    using T2[THEN conjunct1, THEN mp, OF u] s2 by blast
  have 3: "?l \<in> set (applyFilters ?h ?st0)"
    using T0[THEN conjunct1, THEN mp, OF m] s0 k by blast
  have 4: "?e \<notin> set (getFilteredData ?h T_all [?e])"
    by (rule T1[THEN conjunct2, THEN conjunct2, THEN mp, OF d])
  show ?thesis by (intro conjI 1 2 3 4)
qed

section \<open>The months of the loss chart\<close>

text \<open>
  C7 at a failing input. In a browser five hours west of UTC, two records dated
  \<open>2023-12-01\<close> and \<open>2024-01-15\<close>, both kept by the time filter, give the series
  \<open>Nov 2023\<close>, \<open>Jan 2024\<close>: the chart parses the date string with \<open>new Date(string)\<close>,
  which reads it as midnight UTC, and takes the month in local time, the evening of
  the 30th of November. In a browser at UTC the same records give \<open>Dec 2023\<close>,
  \<open>Jan 2024\<close>.
\<close>

theorem lossesOverTimeData_shifted_month:
  "lossesOverTimeData (browser (- 18000000) 1704070800000)
     [example_exploit ''2023-12-01'' (Some 100), example_exploit ''2024-01-15'' (Some 50)]
   = [(''Nov 2023'', 100), (''Jan 2024'', 50)] \<and>
   getFilteredData (browser (- 18000000) 1704070800000) T_all
     [example_exploit ''2023-12-01'' (Some 100), example_exploit ''2024-01-15'' (Some 50)]
   = [example_exploit ''2023-12-01'' (Some 100), example_exploit ''2024-01-15'' (Some 50)] \<and>
   lossesOverTimeData (browser 0 1704070800000)
     [example_exploit ''2023-12-01'' (Some 100), example_exploit ''2024-01-15'' (Some 50)]
   = [(''Dec 2023'', 100), (''Jan 2024'', 50)]"
  by code_simp


end
